theory Spec2Isabelle
  imports Complex_Main
begin

section \<open>JavaScript values used by the uploader\<close>

text \<open>
  The component \<^verbatim>\<open>src/components/Fileupload.tsx\<close> reads a CSV text, validates its
  rows with a zod schema, looks every valid row up at a remote endpoint and keeps the
  annotated rows in React state.  Strings are modelled as \<^typ>\<open>string\<close>; a character
  stands for one code unit below 256.  A JavaScript number is a binary64 value: not a
  number, an infinity, or a signed finite value held as the rational it denotes.
\<close>

datatype jsnum = NaN | Infinity bool | Finite bool rat

definition Number_isNaN :: "jsnum \<Rightarrow> bool" where
  "Number_isNaN v = (v = NaN)"

definition Number_isFinite :: "jsnum \<Rightarrow> bool" where
  "Number_isFinite v = (case v of Finite _ _ \<Rightarrow> True | _ \<Rightarrow> False)"

text \<open>
  A text that a template literal or a CSV writer builds from strings and numbers: where
  a number is printed, the piece \<open>NumberText\<close> stands for its decimal text as
  \<^verbatim>\<open>Number.prototype.toString\<close> gives it.
\<close>

datatype text_piece = Chars string | NumberText jsnum

type_synonym js_text = "text_piece list"

subsection \<open>White space and \<^verbatim>\<open>String.prototype.trim\<close>\<close>

text \<open>
  The code units below 256 that ECMAScript counts as WhiteSpace or LineTerminator:
  TAB, LF, VT, FF, CR, SP and NBSP.
\<close>

definition isStrWhiteSpaceChar :: "char \<Rightarrow> bool" where
  "isStrWhiteSpaceChar c = (of_char c \<in> {9, 10, 11, 12, 13, 32, 160 :: nat})"

definition js_trim :: "string \<Rightarrow> string" where
  "js_trim s = rev (dropWhile isStrWhiteSpaceChar (rev (dropWhile isStrWhiteSpaceChar s)))"

subsection \<open>\<^verbatim>\<open>Number(text)\<close>: the StringToNumber conversion\<close>

definition isDecimalDigit :: "char \<Rightarrow> bool" where
  "isDecimalDigit c = (48 \<le> (of_char c :: nat) \<and> (of_char c :: nat) \<le> 57)"

definition hexDigitValue :: "char \<Rightarrow> nat option" where
  "hexDigitValue c =
     (let n = (of_char c :: nat) in
      if 48 \<le> n \<and> n \<le> 57 then Some (n - 48)
      else if 97 \<le> n \<and> n \<le> 102 then Some (n - 87)
      else if 65 \<le> n \<and> n \<le> 70 then Some (n - 55)
      else None)"

definition digitsInBase :: "nat \<Rightarrow> string \<Rightarrow> bool" where
  "digitsInBase b ds =
     (ds \<noteq> [] \<and> list_all (\<lambda>c. case hexDigitValue c of None \<Rightarrow> False | Some d \<Rightarrow> d < b) ds)"

definition digitsValue :: "nat \<Rightarrow> string \<Rightarrow> int" where
  "digitsValue b ds =
     foldl (\<lambda>acc c. int b * acc + (case hexDigitValue c of None \<Rightarrow> 0 | Some d \<Rightarrow> int d)) 0 ds"

text \<open>The number of binary digits of a whole number.\<close>

function bitlen :: "int \<Rightarrow> nat" where
  "bitlen n = (if n \<le> 0 then 0 else Suc (bitlen (n div 2)))"
  by pat_completeness auto
termination
  by (relation "measure nat") auto

declare bitlen.simps [simp del]

text \<open>\<open>floorLog2 a b\<close> is the integer \<open>e\<close> with \<open>2^e \<le> a / b < 2^(e + 1)\<close>, for positive \<open>a\<close> and \<open>b\<close>.\<close>

definition floorLog2 :: "int \<Rightarrow> int \<Rightarrow> int" where
  "floorLog2 a b =
     (let e0 = int (bitlen a) - int (bitlen b);
          below = (if 0 \<le> e0 then b * 2 ^ nat e0 \<le> a else b \<le> a * 2 ^ nat (- e0))
      in if below then e0 else e0 - 1)"

text \<open>
  RoundMVResult: the mathematical value \<open>a / b\<close> of a literal, rounded to the nearest
  binary64 value, ties to even; a magnitude that rounds to \<open>2^1024\<close> is an infinity.
\<close>

definition RoundMVResult :: "bool \<Rightarrow> int \<Rightarrow> int \<Rightarrow> jsnum" where
  "RoundMVResult neg a b =
     (if a = 0 then Finite neg 0
      else
        let e = max (floorLog2 a b) (- 1022);
            s = e - 52;
            num = (if 0 \<le> s then a else a * 2 ^ nat (- s));
            den = (if 0 \<le> s then b * 2 ^ nat s else b);
            f = num div den;
            r = num mod den;
            n = (if 2 * r < den then f else if den < 2 * r then f + 1
                 else if even f then f else f + 1);
            v = (if 0 \<le> s then of_int n * 2 ^ nat s else of_int n / 2 ^ nat (- s)) :: rat
        in if 2 ^ 1024 \<le> v then Infinity neg else Finite neg v)"

text \<open>
  StrUnsignedDecimalLiteral: \<^verbatim>\<open>Infinity\<close>, or digits with an optional fraction and an
  optional exponent part; at least one digit before or after the point.
\<close>

definition exponentPart :: "string \<Rightarrow> int option" where
  "exponentPart s =
     (case s of
        [] \<Rightarrow> Some 0
      | c # r \<Rightarrow>
          if c = CHR ''e'' \<or> c = CHR ''E'' then
            (case r of
               [] \<Rightarrow> None
             | sg # ds \<Rightarrow>
                 if sg = CHR ''+'' then (if digitsInBase 10 ds then Some (digitsValue 10 ds) else None)
                 else if sg = CHR ''-'' then (if digitsInBase 10 ds then Some (- digitsValue 10 ds) else None)
                 else (if digitsInBase 10 r then Some (digitsValue 10 r) else None))
          else None)"

definition StrUnsignedDecimalLiteral :: "bool \<Rightarrow> string \<Rightarrow> jsnum" where
  "StrUnsignedDecimalLiteral neg s =
     (if s = ''Infinity'' then Infinity neg
      else
        let ip = takeWhile isDecimalDigit s;
            r1 = dropWhile isDecimalDigit s;
            dot = (r1 \<noteq> [] \<and> hd r1 = CHR ''.'');
            fp = (if dot then takeWhile isDecimalDigit (tl r1) else []);
            r2 = (if dot then dropWhile isDecimalDigit (tl r1) else r1)
        in if ip = [] \<and> fp = [] then NaN
           else
             (case exponentPart r2 of
                None \<Rightarrow> NaN
              | Some ex \<Rightarrow>
                  let m = digitsValue 10 (ip @ fp);
                      k = ex - int (length fp)
                  in if 0 \<le> k then RoundMVResult neg (m * 10 ^ nat k) 1
                     else RoundMVResult neg m (10 ^ nat (- k))))"

definition NonDecimalIntegerLiteral :: "string \<Rightarrow> jsnum option" where
  "NonDecimalIntegerLiteral s =
     (case s of
        z # p # ds \<Rightarrow>
          if z \<noteq> CHR ''0'' then None
          else if p = CHR ''x'' \<or> p = CHR ''X'' then
            Some (if digitsInBase 16 ds then RoundMVResult False (digitsValue 16 ds) 1 else NaN)
          else if p = CHR ''o'' \<or> p = CHR ''O'' then
            Some (if digitsInBase 8 ds then RoundMVResult False (digitsValue 8 ds) 1 else NaN)
          else if p = CHR ''b'' \<or> p = CHR ''B'' then
            Some (if digitsInBase 2 ds then RoundMVResult False (digitsValue 2 ds) 1 else NaN)
          else None
      | _ \<Rightarrow> None)"

definition StringToNumber :: "string \<Rightarrow> jsnum" where
  "StringToNumber str =
     (let s = js_trim str in
      if s = [] then Finite False 0
      else
        (case NonDecimalIntegerLiteral s of
           Some v \<Rightarrow> v
         | None \<Rightarrow>
             if hd s = CHR ''+'' then StrUnsignedDecimalLiteral False (tl s)
             else if hd s = CHR ''-'' then StrUnsignedDecimalLiteral True (tl s)
             else StrUnsignedDecimalLiteral False s))"

text \<open>\<^verbatim>\<open>Number(x)\<close> for a property of a decoded row: a string, or \<^verbatim>\<open>undefined\<close> when the row has no such key.\<close>

definition Number_of :: "string option \<Rightarrow> jsnum" where
  "Number_of x = (case x of None \<Rightarrow> NaN | Some s \<Rightarrow> StringToNumber s)"

section \<open>The zod schema \<^verbatim>\<open>csvSchema\<close>\<close>

text \<open>
  The source reads \<^verbatim>\<open>parseResult.error.errors\<close>, the zod 3 interface.  A zod parser adds
  issues to a shared list and returns a status: valid, dirty (an issue was added, the value
  is still there) or aborted.  An issue carries more than the three fields below; the
  source reads \<^verbatim>\<open>path\<close> and \<^verbatim>\<open>message\<close> only.
\<close>

datatype ZodIssueCode = invalid_type | too_small | invalid_string | custom

record ZodIssue =
  code :: ZodIssueCode
  path :: "string list"
  message :: string

datatype 'a ParseReturn = OK 'a | DIRTY 'a | INVALID

datatype ZodStringCheck = MinLength nat string | Email string

text \<open>
  A decoded row is an object whose properties are strings; a key the row does not have
  reads as \<^verbatim>\<open>undefined\<close>, here \<open>None\<close>.
\<close>

type_synonym RawRow = "string \<rightharpoonup> string"

text \<open>
  \<^verbatim>\<open>ZodString._parse\<close>: a value that is not a string aborts with \<open>invalid_type\<close>
  (message \<^verbatim>\<open>Required\<close> for \<^verbatim>\<open>undefined\<close>); then every check runs, in order, and a
  failed check adds its issue and makes the status dirty.  The regular expression of the
  \<^verbatim>\<open>email\<close> check belongs to zod and is a parameter.
\<close>

definition ZodString_check :: "(string \<Rightarrow> bool) \<Rightarrow> string list \<Rightarrow> string \<Rightarrow> ZodStringCheck \<Rightarrow> ZodIssue list" where
  "ZodString_check emailRegex p s ch =
     (case ch of
        MinLength n msg \<Rightarrow> if length s < n then [\<lparr>code = too_small, path = p, message = msg\<rparr>] else []
      | Email msg \<Rightarrow> if \<not> emailRegex s then [\<lparr>code = invalid_string, path = p, message = msg\<rparr>] else [])"

definition ZodString_parse ::
  "(string \<Rightarrow> bool) \<Rightarrow> ZodStringCheck list \<Rightarrow> string list \<Rightarrow> string option \<Rightarrow> ZodIssue list \<times> string ParseReturn" where
  "ZodString_parse emailRegex checks p input =
     (case input of
        None \<Rightarrow> ([\<lparr>code = invalid_type, path = p, message = ''Required''\<rparr>], INVALID)
      | Some s \<Rightarrow>
          let issues = concat (map (ZodString_check emailRegex p s) checks)
          in (issues, if issues = [] then OK s else DIRTY s))"

text \<open>
  \<^verbatim>\<open>z.coerce.number()\<close>: the input is replaced by \<^verbatim>\<open>Number(input)\<close>; a result whose parsed
  type is \<^verbatim>\<open>nan\<close> aborts with \<open>invalid_type\<close>.  No other check is attached, so every other
  number, the infinities included, is valid.
\<close>

definition ZodNumber_coerce_parse :: "string list \<Rightarrow> string option \<Rightarrow> ZodIssue list \<times> jsnum ParseReturn" where
  "ZodNumber_coerce_parse p input =
     (let data = Number_of input in
      if data = NaN then
        ([\<lparr>code = invalid_type, path = p, message = ''Expected number, received nan''\<rparr>], INVALID)
      else ([], OK data))"

text \<open>
  \<^verbatim>\<open>.refine(check, { message })\<close>: the inner parser runs first; when it aborts, the
  refinement does not run; otherwise a false check adds a \<open>custom\<close> issue.
\<close>

definition ZodEffects_refine ::
  "('a \<Rightarrow> bool) \<Rightarrow> string \<Rightarrow> string list \<Rightarrow> ZodIssue list \<times> 'a ParseReturn \<Rightarrow> ZodIssue list \<times> 'a ParseReturn" where
  "ZodEffects_refine check msg p inner =
     (case inner of
        (issues, INVALID) \<Rightarrow> (issues, INVALID)
      | (issues, OK v) \<Rightarrow>
          if check v then (issues, OK v)
          else (issues @ [\<lparr>code = custom, path = p, message = msg\<rparr>], DIRTY v)
      | (issues, DIRTY v) \<Rightarrow>
          if check v then (issues, DIRTY v)
          else (issues @ [\<lparr>code = custom, path = p, message = msg\<rparr>], DIRTY v))"

record CsvRow =
  firstname :: string
  lastname :: string
  username :: string
  uid :: jsnum
  password :: string
  email :: string
  membershipplanid :: jsnum

record ExtendedCsvRow = CsvRow +
  activationStatus :: string

definition parsedValue :: "'a ParseReturn \<Rightarrow> 'a option" where
  "parsedValue r = (case r of OK v \<Rightarrow> Some v | DIRTY v \<Rightarrow> Some v | INVALID \<Rightarrow> None)"

definition isOK :: "'a ParseReturn \<Rightarrow> bool" where
  "isOK r = (case r of OK v \<Rightarrow> True | _ \<Rightarrow> False)"

text \<open>
  The seven parsers of \<^verbatim>\<open>csvSchema\<close>, in the order of the object's shape.  \<^verbatim>\<open>nonempty(m)\<close>
  is the check \<open>MinLength 1 m\<close>.
\<close>

definition parse_firstname :: "(string \<Rightarrow> bool) \<Rightarrow> RawRow \<Rightarrow> ZodIssue list \<times> string ParseReturn" where
  "parse_firstname emailRegex row =
     ZodString_parse emailRegex [MinLength 1 ''First name is required''] [''firstname''] (row ''firstname'')"

definition parse_lastname :: "(string \<Rightarrow> bool) \<Rightarrow> RawRow \<Rightarrow> ZodIssue list \<times> string ParseReturn" where
  "parse_lastname emailRegex row =
     ZodString_parse emailRegex [MinLength 1 ''Last name is required''] [''lastname''] (row ''lastname'')"

definition parse_username :: "(string \<Rightarrow> bool) \<Rightarrow> RawRow \<Rightarrow> ZodIssue list \<times> string ParseReturn" where
  "parse_username emailRegex row =
     ZodString_parse emailRegex [MinLength 1 ''Username is required''] [''username''] (row ''username'')"

definition parse_uid :: "RawRow \<Rightarrow> ZodIssue list \<times> jsnum ParseReturn" where
  "parse_uid row =
     ZodEffects_refine (\<lambda>val. \<not> Number_isNaN val) ''UID must be a number'' [''uid'']
       (ZodNumber_coerce_parse [''uid''] (row ''uid''))"

definition parse_password :: "(string \<Rightarrow> bool) \<Rightarrow> RawRow \<Rightarrow> ZodIssue list \<times> string ParseReturn" where
  "parse_password emailRegex row =
     ZodString_parse emailRegex [MinLength 1 ''Password is required''] [''password''] (row ''password'')"

definition parse_email :: "(string \<Rightarrow> bool) \<Rightarrow> RawRow \<Rightarrow> ZodIssue list \<times> string ParseReturn" where
  "parse_email emailRegex row =
     ZodString_parse emailRegex [Email ''Invalid email format''] [''email''] (row ''email'')"

definition parse_membershipplanid :: "RawRow \<Rightarrow> ZodIssue list \<times> jsnum ParseReturn" where
  "parse_membershipplanid row =
     ZodEffects_refine (\<lambda>val. \<not> Number_isNaN val) ''Membership Plan id must be a number''
       [''membershipplanid'']
       (ZodNumber_coerce_parse [''membershipplanid''] (row ''membershipplanid''))"

text \<open>
  \<^verbatim>\<open>ZodObject._parse\<close>: every key of the shape is parsed, the issues pile up in shape
  order, unknown keys of the input are stripped.  The object is valid when every key is.
\<close>

definition csvSchema_issues :: "(string \<Rightarrow> bool) \<Rightarrow> RawRow \<Rightarrow> ZodIssue list" where
  "csvSchema_issues emailRegex row =
     fst (parse_firstname emailRegex row) @ fst (parse_lastname emailRegex row) @
     fst (parse_username emailRegex row) @ fst (parse_uid row) @
     fst (parse_password emailRegex row) @ fst (parse_email emailRegex row) @
     fst (parse_membershipplanid row)"

definition csvSchema_parse :: "(string \<Rightarrow> bool) \<Rightarrow> RawRow \<Rightarrow> ZodIssue list \<times> CsvRow ParseReturn" where
  "csvSchema_parse emailRegex row =
     (let r1 = snd (parse_firstname emailRegex row);
          r2 = snd (parse_lastname emailRegex row);
          r3 = snd (parse_username emailRegex row);
          r4 = snd (parse_uid row);
          r5 = snd (parse_password emailRegex row);
          r6 = snd (parse_email emailRegex row);
          r7 = snd (parse_membershipplanid row)
      in (csvSchema_issues emailRegex row,
          case (parsedValue r1, parsedValue r2, parsedValue r3, parsedValue r4,
                parsedValue r5, parsedValue r6, parsedValue r7) of
            (Some v1, Some v2, Some v3, Some v4, Some v5, Some v6, Some v7) \<Rightarrow>
              let v = \<lparr>firstname = v1, lastname = v2, username = v3, uid = v4,
                       password = v5, email = v6, membershipplanid = v7\<rparr>
              in if isOK r1 \<and> isOK r2 \<and> isOK r3 \<and> isOK r4 \<and> isOK r5 \<and> isOK r6 \<and> isOK r7
                 then OK v else DIRTY v
          | _ \<Rightarrow> INVALID))"

datatype SafeParseReturnType = SafeParseSuccess CsvRow | SafeParseError "ZodIssue list"

definition safeParse :: "(string \<Rightarrow> bool) \<Rightarrow> RawRow \<Rightarrow> SafeParseReturnType" where
  "safeParse emailRegex row =
     (case csvSchema_parse emailRegex row of
        (issues, OK v) \<Rightarrow> SafeParseSuccess v
      | (issues, _) \<Rightarrow> SafeParseError issues)"

section \<open>The row processor of \<^verbatim>\<open>handleFileUpload\<close>\<close>

text \<open>The decimal text of a row number, as the template literal \<^verbatim>\<open>${index + 1}\<close> prints it.\<close>

definition digitChar :: "nat \<Rightarrow> char" where
  "digitChar d = ''0123456789'' ! d"

function natToString :: "nat \<Rightarrow> string" where
  "natToString n = (if n < 10 then [digitChar n] else natToString (n div 10) @ [digitChar (n mod 10)])"
  by pat_completeness auto
termination
  by (relation "measure id") auto

declare natToString.simps [simp del]

text \<open>\<^verbatim>\<open>Array.prototype.join\<close> on an array of strings.\<close>

fun join :: "string \<Rightarrow> string list \<Rightarrow> string" where
  "join sep [] = []"
| "join sep [x] = x"
| "join sep (x # y # ys) = x @ sep @ join sep (y # ys)"

definition rowError :: "nat \<Rightarrow> ZodIssue \<Rightarrow> string" where
  "rowError index err =
     ''Row '' @ natToString (index + 1) @ '' - '' @ join '' '' (path err) @ '': '' @ message err"

text \<open>
  \<^verbatim>\<open>data.forEach((row, index) => ...)\<close> with its two accumulators \<^verbatim>\<open>validRows\<close> and
  \<^verbatim>\<open>errorList\<close>; \<^verbatim>\<open>push\<close> appends at the end.
\<close>

fun forEach_row ::
  "(string \<Rightarrow> bool) \<Rightarrow> RawRow list \<Rightarrow> nat \<Rightarrow> CsvRow list \<Rightarrow> string list \<Rightarrow> CsvRow list \<times> string list" where
  "forEach_row emailRegex [] index validRows errorList = (validRows, errorList)"
| "forEach_row emailRegex (row # rest) index validRows errorList =
     (case safeParse emailRegex row of
        SafeParseSuccess parsed \<Rightarrow>
          forEach_row emailRegex rest (index + 1) (validRows @ [parsed]) errorList
      | SafeParseError errs \<Rightarrow>
          forEach_row emailRegex rest (index + 1) validRows (errorList @ map (rowError index) errs))"

definition processRows :: "(string \<Rightarrow> bool) \<Rightarrow> RawRow list \<Rightarrow> CsvRow list \<times> string list" where
  "processRows emailRegex data = forEach_row emailRegex data 0 [] []"

text \<open>
  The row processor as the specification words it: every record is validated on its own;
  the valid rows are the successes in their order, and the error strings are, record by
  record, one string per issue, carrying the record's position counted from 1.
\<close>

definition spec_validRows :: "(string \<Rightarrow> bool) \<Rightarrow> RawRow list \<Rightarrow> CsvRow list" where
  "spec_validRows emailRegex data =
     concat (map (\<lambda>row. case safeParse emailRegex row of
                           SafeParseSuccess parsed \<Rightarrow> [parsed]
                         | SafeParseError errs \<Rightarrow> []) data)"

definition spec_rowErrors :: "(string \<Rightarrow> bool) \<Rightarrow> nat \<Rightarrow> RawRow \<Rightarrow> string list" where
  "spec_rowErrors emailRegex position row =
     (case safeParse emailRegex row of
        SafeParseSuccess parsed \<Rightarrow> []
      | SafeParseError errs \<Rightarrow>
          map (\<lambda>err. ''Row '' @ natToString position @ '' - '' @ join '' '' (path err) @ '': '' @ message err) errs)"

definition spec_errorList :: "(string \<Rightarrow> bool) \<Rightarrow> RawRow list \<Rightarrow> string list" where
  "spec_errorList emailRegex data =
     concat (map (\<lambda>(i, row). spec_rowErrors emailRegex (i + 1) row) (enumerate 0 data))"

section \<open>The activation lookup\<close>

text \<open>
  What \<^verbatim>\<open>response.json()\<close> can resolve to, and the errors a promise can reject with.
  An object lists its own properties, every key once.
\<close>

datatype json =
    JNull | JBool bool | JNumber jsnum | JString string
  | JArray "json list" | JObject "(string \<times> json) list"

datatype js_error = JsError string string

text \<open>
  One outbound request ends in one of three ways: \<^verbatim>\<open>fetch\<close> rejects, \<^verbatim>\<open>response.json()\<close>
  rejects, or the body parses to a JSON value.
\<close>

datatype fetch_outcome = FetchRejects js_error | JsonRejects js_error | JsonResolves json

text \<open>The request URL of the template literal, with the row's two numbers printed into it.\<close>

definition apiUrl :: "CsvRow \<Rightarrow> js_text" where
  "apiUrl row =
     [Chars ''/api/?ihc_action=api-gate&ihch=F4ARzxSFjQpZxqjt5jiJn7HlXqMu23Y&action=user_add_level&uid='',
      NumberText (uid row),
      Chars ''&lid='',
      NumberText (membershipplanid row)]"

text \<open>
  The remote endpoint and the transport are the environment: the outcome of the request
  with a given sequence number and URL.
\<close>

type_synonym network = "nat \<Rightarrow> js_text \<Rightarrow> fetch_outcome"

text \<open>
  \<^verbatim>\<open>fetch(apiUrl)\<close> followed by \<^verbatim>\<open>response.json()\<close>: the call sends the request, which
  joins the requests sent so far, and ends as the environment says for a request with
  that sequence number.
\<close>

definition fetch :: "network \<Rightarrow> js_text \<Rightarrow> js_text list \<Rightarrow> fetch_outcome \<times> js_text list" where
  "fetch net url sent = (net (length sent) url, sent @ [url])"

text \<open>
  \<^verbatim>\<open>result.response\<close>: reading a property of \<^verbatim>\<open>null\<close> throws a TypeError; an object
  gives its property or \<^verbatim>\<open>undefined\<close> (\<open>None\<close>); every other JSON value has no such
  property.
\<close>

definition get_response :: "json \<Rightarrow> js_error + json option" where
  "get_response result =
     (case result of
        JNull \<Rightarrow> Inl (JsError ''TypeError'' ''Cannot read properties of null (reading response)'')
      | JObject props \<Rightarrow> Inr (map_of props ''response'')
      | _ \<Rightarrow> Inr None)"

definition withStatus :: "CsvRow \<Rightarrow> string \<Rightarrow> ExtendedCsvRow" where
  "withStatus row status =
     \<lparr>firstname = firstname row, lastname = lastname row, username = username row,
      uid = uid row, password = password row, email = email row,
      membershipplanid = membershipplanid row, activationStatus = status\<rparr>"

text \<open>
  The \<^verbatim>\<open>try\<close> block: \<open>Inl\<close> is a thrown error, \<open>Inr\<close> the returned row; the second
  component is the list of requests sent, with the one of this call.
\<close>

definition fetchActivationStatusForRow_try ::
  "network \<Rightarrow> CsvRow \<Rightarrow> js_text list \<Rightarrow> (js_error + ExtendedCsvRow) \<times> js_text list" where
  "fetchActivationStatusForRow_try net row sent =
     (let (outcome, sent1) = fetch net (apiUrl row) sent
      in (case outcome of
            FetchRejects e \<Rightarrow> Inl e
          | JsonRejects e \<Rightarrow> Inl e
          | JsonResolves result \<Rightarrow>
              (case get_response result of
                 Inl e \<Rightarrow> Inl e
               | Inr response \<Rightarrow>
                   Inr (withStatus row
                          (if response = Some (JBool True) then ''Activated'' else ''Inactive''))),
          sent1))"

text \<open>
  The whole function: the \<^verbatim>\<open>catch\<close> clause turns every thrown error into a row with status
  \<^verbatim>\<open>Error\<close>.  The result is how the returned promise settles: \<open>Inl\<close> rejected, \<open>Inr\<close>
  fulfilled.  \<^verbatim>\<open>console.error\<close> writes to the developer console only and is not part of
  the state.
\<close>

definition fetchActivationStatusForRow ::
  "network \<Rightarrow> CsvRow \<Rightarrow> js_text list \<Rightarrow> (js_error + ExtendedCsvRow) \<times> js_text list" where
  "fetchActivationStatusForRow net row sent =
     (case fetchActivationStatusForRow_try net row sent of
        (Inr extended, sent1) \<Rightarrow> (Inr extended, sent1)
      | (Inl error, sent1) \<Rightarrow> (Inr (withStatus row ''Error''), sent1))"

text \<open>
  The status of a lookup as the specification words it, by the way the request ends: a
  payload whose \<^verbatim>\<open>response\<close> is \<^verbatim>\<open>true\<close> gives \<^verbatim>\<open>Activated\<close>, any other payload that can be
  read gives \<^verbatim>\<open>Inactive\<close>, a failure of the call gives \<^verbatim>\<open>Error\<close>.  The payload \<^verbatim>\<open>null\<close>
  cannot be read: the property access throws, which is a failure of the call.
\<close>

definition spec_activationStatus :: "fetch_outcome \<Rightarrow> string" where
  "spec_activationStatus outcome =
     (case outcome of
        FetchRejects e \<Rightarrow> ''Error''
      | JsonRejects e \<Rightarrow> ''Error''
      | JsonResolves result \<Rightarrow>
          (case result of
             JNull \<Rightarrow> ''Error''
           | JObject props \<Rightarrow>
               if map_of props ''response'' = Some (JBool True) then ''Activated'' else ''Inactive''
           | _ \<Rightarrow> ''Inactive''))"

section \<open>\<^verbatim>\<open>Promise.all\<close>\<close>

text \<open>
  \<^verbatim>\<open>Promise.all\<close> keeps an array of values, one slot per input promise, and a count of the
  promises still pending.  The promises settle in some order, given here as the list of
  their indices in completion order; an index out of range or one that has settled
  already is no event.  A fulfilment stores the value in the slot of its index; the first
  rejection rejects the whole; when the count reaches zero the array is the result.  When
  the events run out before that, the aggregate stays pending.
\<close>

datatype 'a promise = Pending | Fulfilled 'a | Rejected js_error

fun Promise_all_settle ::
  "(js_error + 'a) list \<Rightarrow> nat list \<Rightarrow> 'a option list \<Rightarrow> nat \<Rightarrow> 'a list promise" where
  "Promise_all_settle ps [] values remaining = Pending"
| "Promise_all_settle ps (i # order) values remaining =
     (if i < length ps \<and> values ! i = None then
        (case ps ! i of
           Inl e \<Rightarrow> Rejected e
         | Inr v \<Rightarrow>
             if remaining - 1 = 0 then Fulfilled (map the (values[i := Some v]))
             else Promise_all_settle ps order (values[i := Some v]) (remaining - 1))
      else Promise_all_settle ps order values remaining)"

definition Promise_all :: "(js_error + 'a) list \<Rightarrow> nat list \<Rightarrow> 'a list promise" where
  "Promise_all ps order =
     (if ps = [] then Fulfilled []
      else Promise_all_settle ps order (replicate (length ps) None) (length ps))"

section \<open>The CSV functions of the papaparse library\<close>

text \<open>
  \<^verbatim>\<open>Papa.parse\<close> and \<^verbatim>\<open>Papa.unparse\<close> belong to the papaparse package, which the component
  imports.  They are modelled here as the library's parser works on a string input with
  the configuration of the source (\<^verbatim>\<open>header: true\<close>, \<^verbatim>\<open>skipEmptyLines: true\<close>, everything
  else default): the line ending and the delimiter are guessed from the text, the quote
  character is the double quote, a quote inside a quoted field is doubled.
\<close>

definition quoteChar :: char where
  "quoteChar = CHR 0x22"

definition LF :: char where
  "LF = CHR 0x0A"

definition CR :: char where
  "CR = CHR 0x0D"

fun indexOfChar :: "char \<Rightarrow> string \<Rightarrow> nat option" where
  "indexOfChar c [] = None"
| "indexOfChar c (x # xs) = (if x = c then Some 0 else map_option Suc (indexOfChar c xs))"

fun indexOfString :: "string \<Rightarrow> string \<Rightarrow> nat option" where
  "indexOfString sub [] = (if sub = [] then Some 0 else None)"
| "indexOfString sub (x # xs) =
     (if take (length sub) (x # xs) = sub then Some 0 else map_option Suc (indexOfString sub xs))"

text \<open>\<^verbatim>\<open>String.prototype.split\<close> with a one-character separator.\<close>

fun splitChar :: "char \<Rightarrow> string \<Rightarrow> string \<Rightarrow> string list" where
  "splitChar sep acc [] = [acc]"
| "splitChar sep acc (c # cs) =
     (if c = sep then acc # splitChar sep [] cs else splitChar sep (acc @ [c]) cs)"

subsection \<open>Guessing the line ending\<close>

text \<open>
  The quoted stretches (from a quote to the next one) are removed first; a quote with
  no partner stays, with all that follows it.
\<close>

fun removeQuoted :: "bool \<Rightarrow> string \<Rightarrow> string" where
  "removeQuoted inside [] = []"
| "removeQuoted True (c # cs) =
     (if c = quoteChar then removeQuoted False cs else removeQuoted True cs)"
| "removeQuoted False (c # cs) =
     (if c = quoteChar then (if quoteChar \<in> set cs then removeQuoted True cs else c # cs)
      else c # removeQuoted False cs)"

definition guessLineEndings :: "string \<Rightarrow> string" where
  "guessLineEndings input =
     (let text = removeQuoted False (take (1024 * 1024) input);
          r = splitChar CR [] text;
          n = splitChar LF [] text;
          nAppearsFirst = (1 < length n \<and> length (hd n) < length (hd r))
      in if length r = 1 \<or> nAppearsFirst then [LF]
         else
           let numWithN = length (filter (\<lambda>seg. seg \<noteq> [] \<and> hd seg = LF) r)
           in if length r \<le> 2 * numWithN then [CR, LF] else [CR])"

subsection \<open>The parser\<close>

text \<open>\<^verbatim>\<open>replace(/""/g, '"')\<close>: every doubled quote of a quoted field becomes one quote.\<close>

fun unescapeQuotes :: "string \<Rightarrow> string" where
  "unescapeQuotes [] = []"
| "unescapeQuotes [c] = [c]"
| "unescapeQuotes (c # c' # cs) =
     (if c = quoteChar \<and> c' = quoteChar then quoteChar # unescapeQuotes cs
      else c # unescapeQuotes (c' # cs))"

text \<open>
  The white space between a closing quote and the position \<open>index\<close> after it, when all
  the text between them is white space; \<open>None\<close> stands for the index \<open>-1\<close>.
\<close>

definition extraSpaces :: "string \<Rightarrow> nat option \<Rightarrow> nat" where
  "extraSpaces after index =
     (case index of
        None \<Rightarrow> 0
      | Some k \<Rightarrow>
          let textBetween = take k after
          in if textBetween \<noteq> [] \<and> js_trim textBetween = [] then length textBetween else 0)"

text \<open>
  A quote inside a quoted field closes the field when the delimiter follows it, closes
  the row when the line ending follows it (white space in between is skipped), and is
  part of the data otherwise.  \<open>after\<close> is the text behind the quote; the result says how
  many characters of it are consumed.
\<close>

datatype closing = ClosesField nat | ClosesRow nat | NotClosing

definition closingQuote :: "string \<Rightarrow> char \<Rightarrow> string \<Rightarrow> closing" where
  "closingQuote newline delim after =
     (let nextDelim = indexOfChar delim after;
          nextNewline = indexOfString newline after;
          checkUpTo = (case nextNewline of
                         None \<Rightarrow> nextDelim
                       | Some n \<Rightarrow> (case nextDelim of None \<Rightarrow> None | Some d \<Rightarrow> Some (min d n)));
          spacesBetweenQuoteAndDelimiter = extraSpaces after checkUpTo
      in if take 1 (drop spacesBetweenQuoteAndDelimiter after) = [delim]
         then ClosesField (spacesBetweenQuoteAndDelimiter + 1)
         else
           let spacesBetweenQuoteAndNewLine = extraSpaces after nextNewline
           in if take (length newline) (drop spacesBetweenQuoteAndNewLine after) = newline
              then ClosesRow (spacesBetweenQuoteAndNewLine + length newline)
              else NotClosing)"

text \<open>
  The parser loop, one character at a time.  The states: at the start of a field; inside
  an unquoted field; inside a quoted field, behind its opening quote; inside a quoted
  field with the next character taken as data unseen (the second quote of a doubled
  quote, the character behind a stray quote); consuming the rest of a separator.  At the
  end of the input the field at hand and its row are pushed; a quoted field that was
  never closed keeps its text as it stands.
\<close>

datatype scan = FieldStart | InField string | InQuotes string | QuotedSkip string | SkipThenField nat

fun parseLoop :: "string \<Rightarrow> char \<Rightarrow> scan \<Rightarrow> string list \<Rightarrow> string \<Rightarrow> string list list" where
  "parseLoop newline delim st row [] =
     (case st of
        FieldStart \<Rightarrow> [row @ [[]]]
      | InField acc \<Rightarrow> [row @ [acc]]
      | InQuotes raw \<Rightarrow> [row @ [raw]]
      | QuotedSkip raw \<Rightarrow> [row @ [raw]]
      | SkipThenField k \<Rightarrow> [row @ [[]]])"
| "parseLoop newline delim FieldStart row (c # cs) =
     (if c = quoteChar then parseLoop newline delim (InQuotes []) row cs
      else if take (length newline) (c # cs) = newline then
        (row @ [[]]) # parseLoop newline delim
                         (if length newline \<le> 1 then FieldStart else SkipThenField (length newline - 1)) [] cs
      else if c = delim then parseLoop newline delim FieldStart (row @ [[]]) cs
      else parseLoop newline delim (InField [c]) row cs)"
| "parseLoop newline delim (InField acc) row (c # cs) =
     (if take (length newline) (c # cs) = newline then
        (row @ [acc]) # parseLoop newline delim
                          (if length newline \<le> 1 then FieldStart else SkipThenField (length newline - 1)) [] cs
      else if c = delim then parseLoop newline delim FieldStart (row @ [acc]) cs
      else parseLoop newline delim (InField (acc @ [c])) row cs)"
| "parseLoop newline delim (InQuotes raw) row (c # cs) =
     (if c \<noteq> quoteChar then parseLoop newline delim (InQuotes (raw @ [c])) row cs
      else if cs = [] then [row @ [unescapeQuotes raw]]
      else if hd cs = quoteChar then parseLoop newline delim (QuotedSkip (raw @ [c])) row cs
      else
        (case closingQuote newline delim cs of
           ClosesField k \<Rightarrow> parseLoop newline delim (SkipThenField k) (row @ [unescapeQuotes raw]) cs
         | ClosesRow k \<Rightarrow> (row @ [unescapeQuotes raw]) # parseLoop newline delim (SkipThenField k) [] cs
         | NotClosing \<Rightarrow> parseLoop newline delim (QuotedSkip (raw @ [c])) row cs))"
| "parseLoop newline delim (QuotedSkip raw) row (c # cs) =
     parseLoop newline delim (InQuotes (raw @ [c])) row cs"
| "parseLoop newline delim (SkipThenField k) row (c # cs) =
     parseLoop newline delim (if k \<le> 1 then FieldStart else SkipThenField (k - 1)) row cs"

text \<open>\<^verbatim>\<open>Parser.parse\<close>: the empty input has no rows.\<close>

definition Parser_parse :: "string \<Rightarrow> char \<Rightarrow> string \<Rightarrow> string list list" where
  "Parser_parse newline delim input =
     (if input = [] then [] else parseLoop newline delim FieldStart [] input)"

definition testEmptyLine :: "string list \<Rightarrow> bool" where
  "testEmptyLine d = (length d = 1 \<and> length (hd d) = 0)"

subsection \<open>Guessing the delimiter\<close>

text \<open>
  For every candidate the first ten rows are parsed with it; the candidate counts when
  its rows have two fields or more on average, and wins over an earlier one when its
  field counts vary no more and its average is larger.  The averages are quotients of
  small whole numbers and are compared exactly; \<open>None\<close> is the quotient \<open>0 / 0\<close>.
\<close>

record guess_acc =
  delta :: nat
  fieldSum :: nat
  emptyLinesCount :: nat
  fieldCountPrevRow :: "nat option"

definition guessRow :: "guess_acc \<Rightarrow> string list \<Rightarrow> guess_acc" where
  "guessRow a row =
     (if testEmptyLine row then a\<lparr>emptyLinesCount := emptyLinesCount a + 1\<rparr>
      else
        let fieldCount = length row;
            a1 = a\<lparr>fieldSum := fieldSum a + fieldCount\<rparr>
        in (case fieldCountPrevRow a of
              None \<Rightarrow> a1\<lparr>fieldCountPrevRow := Some fieldCount\<rparr>
            | Some prev \<Rightarrow>
                if 0 < fieldCount
                then a1\<lparr>delta := delta a + (if prev \<le> fieldCount then fieldCount - prev else prev - fieldCount),
                        fieldCountPrevRow := Some fieldCount\<rparr>
                else a1))"

definition avgFieldCount :: "string list list \<Rightarrow> guess_acc \<Rightarrow> rat option" where
  "avgFieldCount preview a =
     (if preview = [] then Some 0
      else if length preview - emptyLinesCount a = 0 then None
      else Some (of_nat (fieldSum a) / of_nat (length preview - emptyLinesCount a)))"

record guess_best =
  bestDelim :: "char option"
  bestDelta :: "nat option"
  maxFieldCount :: "rat option"

definition guessStep :: "string \<Rightarrow> string \<Rightarrow> guess_best \<Rightarrow> char \<Rightarrow> guess_best" where
  "guessStep input newline best delim =
     (let preview = take 10 (Parser_parse newline delim input);
          a = foldl guessRow \<lparr>delta = 0, fieldSum = 0, emptyLinesCount = 0, fieldCountPrevRow = None\<rparr> preview
      in (case avgFieldCount preview a of
            None \<Rightarrow> best
          | Some avg \<Rightarrow>
              if (case bestDelta best of None \<Rightarrow> True | Some b \<Rightarrow> delta a \<le> b)
                 \<and> (case maxFieldCount best of None \<Rightarrow> True | Some m \<Rightarrow> m < avg)
                 \<and> 199 / 100 < avg
              then \<lparr>bestDelim = Some delim, bestDelta = Some (delta a), maxFieldCount = Some avg\<rparr>
              else best))"

definition delimitersToGuess :: "char list" where
  "delimitersToGuess = [CHR '','', CHR 0x09, CHR ''|'', CHR '';'', CHR 0x1E, CHR 0x1F]"

definition guessDelimiter :: "string \<Rightarrow> string \<Rightarrow> char option" where
  "guessDelimiter input newline =
     bestDelim (foldl (guessStep input newline)
                  \<lparr>bestDelim = None, bestDelta = None, maxFieldCount = None\<rparr> delimitersToGuess)"

subsection \<open>\<^verbatim>\<open>Papa.parse\<close> with a header row\<close>

text \<open>
  What the \<^verbatim>\<open>complete\<close> callback reads of the results: \<^verbatim>\<open>results.data\<close> and
  \<^verbatim>\<open>results.meta.fields\<close>.  The first row that is not empty gives the field names; every
  later row becomes an object with one property per field name it has a value for.
  Values beyond the last field name go to the property \<^verbatim>\<open>__parsed_extra\<close>, which the
  schema strips and the model leaves out.
\<close>

record ParseResult =
  data :: "RawRow list"
  meta_fields :: "string list option"

definition rowObject :: "string list \<Rightarrow> string list \<Rightarrow> RawRow" where
  "rowObject flds rowSource = foldl (\<lambda>obj (field, v). obj(field \<mapsto> v)) Map.empty (zip flds rowSource)"

definition Papa_parse :: "string \<Rightarrow> ParseResult" where
  "Papa_parse input =
     (let newline = guessLineEndings input;
          delimiter = (case guessDelimiter input newline of Some d \<Rightarrow> d | None \<Rightarrow> CHR '','');
          rows = filter (\<lambda>d. \<not> testEmptyLine d) (Parser_parse newline delimiter input)
      in (case rows of
            [] \<Rightarrow> \<lparr>data = [], meta_fields = Some []\<rparr>
          | header # body \<Rightarrow> \<lparr>data = map (rowObject header) body, meta_fields = Some header\<rparr>))"

subsection \<open>\<^verbatim>\<open>Papa.unparse\<close>\<close>

text \<open>
  A value is quoted when it holds a line break, a quote or the delimiter, or starts or
  ends with a space; its quotes are doubled.  Rows end with CR LF, except the last.
\<close>

definition escapeQuotes :: "string \<Rightarrow> string" where
  "escapeQuotes str = concat (map (\<lambda>c. if c = quoteChar then [quoteChar, quoteChar] else [c]) str)"

definition safe :: "string \<Rightarrow> string" where
  "safe str =
     (let escapedQuoteStr = escapeQuotes str;
          needsQuotes = (list_ex (\<lambda>c. c = CR \<or> c = LF \<or> c = quoteChar) escapedQuoteStr
                         \<or> CHR '','' \<in> set escapedQuoteStr
                         \<or> take 1 escapedQuoteStr = '' ''
                         \<or> take 1 (rev escapedQuoteStr) = '' '')
      in if needsQuotes then [quoteChar] @ escapedQuoteStr @ [quoteChar] else escapedQuoteStr)"

definition serialize :: "string list list \<Rightarrow> string" where
  "serialize rows = join [CR, LF] (map (\<lambda>row. join '','' (map safe row)) rows)"

text \<open>\<^verbatim>\<open>Papa.unparse\<close> of an array of arrays: the rows, no header line.\<close>

definition Papa_unparse_arrays :: "string list list \<Rightarrow> string" where
  "Papa_unparse_arrays input = serialize input"

text \<open>
  \<^verbatim>\<open>Papa.unparse\<close> of the annotated rows: a header line with the keys of the first
  object, then one line per object, its values in the order of those keys.  A number is
  printed as it is; its text holds nothing that asks for quotes.
\<close>

datatype cell = Str string | Numeric jsnum

definition rowKeys :: "string list" where
  "rowKeys = [''firstname'', ''lastname'', ''username'', ''uid'', ''password'', ''email'',
              ''membershipplanid'', ''activationStatus'']"

definition rowValues :: "ExtendedCsvRow \<Rightarrow> cell list" where
  "rowValues row =
     [Str (firstname row), Str (lastname row), Str (username row), Numeric (uid row),
      Str (password row), Str (email row), Numeric (membershipplanid row),
      Str (activationStatus row)]"

definition safeCell :: "cell \<Rightarrow> text_piece" where
  "safeCell c = (case c of Str s \<Rightarrow> Chars (safe s) | Numeric n \<Rightarrow> NumberText n)"

fun joinText :: "string \<Rightarrow> js_text list \<Rightarrow> js_text" where
  "joinText sep [] = []"
| "joinText sep [x] = x"
| "joinText sep (x # y # ys) = x @ [Chars sep] @ joinText sep (y # ys)"

definition serializeObjects :: "string list \<Rightarrow> cell list list \<Rightarrow> js_text" where
  "serializeObjects keys rows =
     joinText [CR, LF]
       ([Chars (join '','' (map safe keys))]
        # map (\<lambda>row. joinText '','' (map (\<lambda>c. [safeCell c]) row)) rows)"

definition Papa_unparse_objects :: "ExtendedCsvRow list \<Rightarrow> js_text" where
  "Papa_unparse_objects input =
     (if input = [] then [] else serializeObjects rowKeys (map rowValues input))"

section \<open>The component \<^verbatim>\<open>CsvFileUploader\<close>\<close>

text \<open>
  The state of the component and what it does to the page: the three React state
  variables, the value of the file input, the requests sent so far, the object URLs that
  are registered (with the number of URLs created so far, from which a fresh one is made),
  the children the handlers append to the document body, and the files a click on a
  download link has saved.
\<close>

record Blob =
  content :: js_text
  mimeType :: string

record Anchor =
  href :: nat
  download :: string
  visibility :: string

record State =
  validatedData :: "ExtendedCsvRow list"
  errors :: "string list"
  loading :: bool
  fileInputValue :: "string option"
  requests :: "js_text list"
  objectURLs :: "(nat \<times> Blob) list"
  createdURLs :: nat
  bodyChildren :: "Anchor list"
  savedFiles :: "(string \<times> Blob option) list"

definition initialState :: State where
  "initialState =
     \<lparr>validatedData = [], errors = [], loading = False, fileInputValue = Some [],
      requests = [], objectURLs = [], createdURLs = 0, bodyChildren = [], savedFiles = []\<rparr>"

subsection \<open>\<^verbatim>\<open>handleClear\<close>\<close>

definition handleClear :: "State \<Rightarrow> State" where
  "handleClear st =
     (let st1 = st\<lparr>validatedData := []\<rparr>;
          st2 = st1\<lparr>errors := []\<rparr>
      in (case fileInputValue st2 of
            Some v \<Rightarrow> st2\<lparr>fileInputValue := Some []\<rparr>
          | None \<Rightarrow> st2))"

subsection \<open>\<^verbatim>\<open>handleFileUpload\<close>\<close>

definition expectedHeaders :: "string list" where
  "expectedHeaders =
     [''firstname'', ''lastname'', ''username'', ''uid'', ''password'', ''email'', ''membershipplanid'']"

definition headerMismatch :: "ParseResult \<Rightarrow> bool" where
  "headerMismatch results =
     (case meta_fields results of
        None \<Rightarrow> True
      | Some flds \<Rightarrow> join '','' flds \<noteq> join '','' expectedHeaders)"

definition headerError :: string where
  "headerError = ''CSV header does not match expected order. Expected: '' @ join '', '' expectedHeaders"

text \<open>
  The lookups of the valid rows: \<^verbatim>\<open>validRows.map\<close> calls \<^verbatim>\<open>fetchActivationStatusForRow\<close> row
  by row, and each call sends its request before it first waits, so the requests go out
  in row order.  The result is the list of promises, each with the way it settles, and
  the requests sent.
\<close>

fun lookups ::
  "network \<Rightarrow> CsvRow list \<Rightarrow> js_text list \<Rightarrow> (js_error + ExtendedCsvRow) list \<times> js_text list" where
  "lookups net [] sent = ([], sent)"
| "lookups net (row # rest) sent =
     (let (p, sent1) = fetchActivationStatusForRow net row sent;
          (ps, sent2) = lookups net rest sent1
      in (p # ps, sent2))"

text \<open>
  The annotated rows as the specification words them: the row at position \<open>k\<close> of the
  output is the row at position \<open>k\<close> of the input with the status of its own lookup.
\<close>

definition spec_annotatedRows :: "network \<Rightarrow> nat \<Rightarrow> CsvRow list \<Rightarrow> ExtendedCsvRow list" where
  "spec_annotatedRows net sent rows =
     map (\<lambda>(k, row).
            \<lparr>firstname = firstname row, lastname = lastname row, username = username row,
             uid = uid row, password = password row, email = email row,
             membershipplanid = membershipplanid row,
             activationStatus = spec_activationStatus (net (sent + k) (apiUrl row))\<rparr>)
       (enumerate 0 rows)"

text \<open>
  The \<^verbatim>\<open>complete\<close> callback.  \<open>order\<close> is the order in which the lookups complete.  When
  \<^verbatim>\<open>Promise.all\<close> never settles the function stays at its \<^verbatim>\<open>await\<close>, with \<^verbatim>\<open>loading\<close>
  set.
\<close>

definition complete_callback :: "(string \<Rightarrow> bool) \<Rightarrow> network \<Rightarrow> nat list \<Rightarrow> ParseResult \<Rightarrow> State \<Rightarrow> State" where
  "complete_callback emailRegex net order results st =
     (if headerMismatch results then
        (let st1 = st\<lparr>errors := [headerError]\<rparr>
         in st1\<lparr>validatedData := []\<rparr>)
      else
        (let (validRows, errorList) = processRows emailRegex (data results);
             st1 = st\<lparr>errors := errorList\<rparr>;
             st2 = st1\<lparr>loading := True\<rparr>;
             (promises, sent) = lookups net validRows (requests st2);
             st3 = st2\<lparr>requests := sent\<rparr>
         in (case Promise_all promises order of
               Fulfilled extendedRows \<Rightarrow>
                 (let st4 = st3\<lparr>validatedData := extendedRows\<rparr> in st4\<lparr>loading := False\<rparr>)
             | Rejected err \<Rightarrow> st3\<lparr>loading := False\<rparr>
             | Pending \<Rightarrow> st3)))"

text \<open>
  \<^verbatim>\<open>handleFileUpload\<close>: with no file chosen nothing happens; otherwise the text of the file
  is parsed and \<^verbatim>\<open>complete\<close> runs on the results.
\<close>

definition handleFileUpload :: "(string \<Rightarrow> bool) \<Rightarrow> network \<Rightarrow> nat list \<Rightarrow> string option \<Rightarrow> State \<Rightarrow> State" where
  "handleFileUpload emailRegex net order file st =
     (case file of
        None \<Rightarrow> st
      | Some csvString \<Rightarrow> complete_callback emailRegex net order (Papa_parse csvString) st)"

subsection \<open>The two downloads\<close>

text \<open>
  \<^verbatim>\<open>URL.createObjectURL\<close> registers the blob under a URL that was not used before and
  returns it.  A click on a link with a \<^verbatim>\<open>download\<close> attribute saves what its \<^verbatim>\<open>href\<close>
  points to under the given file name.
\<close>

definition createObjectURL :: "Blob \<Rightarrow> State \<Rightarrow> nat \<times> State" where
  "createObjectURL blob st =
     (createdURLs st,
      st\<lparr>objectURLs := objectURLs st @ [(createdURLs st, blob)], createdURLs := createdURLs st + 1\<rparr>)"

definition appendChild :: "Anchor \<Rightarrow> State \<Rightarrow> State" where
  "appendChild link st = st\<lparr>bodyChildren := bodyChildren st @ [link]\<rparr>"

definition click :: "Anchor \<Rightarrow> State \<Rightarrow> State" where
  "click link st = st\<lparr>savedFiles := savedFiles st @ [(download link, map_of (objectURLs st) (href link))]\<rparr>"

text \<open>The node to remove is the one appended last: the last child equal to \<open>link\<close>.\<close>

definition removeChild :: "Anchor \<Rightarrow> State \<Rightarrow> State" where
  "removeChild link st = st\<lparr>bodyChildren := rev (remove1 link (rev (bodyChildren st)))\<rparr>"

definition downloadLink :: "js_text \<Rightarrow> string \<Rightarrow> State \<Rightarrow> State" where
  "downloadLink csv fileName st =
     (let blob = \<lparr>content = csv, mimeType = ''text/csv;charset=utf-8;''\<rparr>;
          (url, st1) = createObjectURL blob st;
          link = \<lparr>href = url, download = fileName, visibility = ''hidden''\<rparr>;
          st2 = appendChild link st1;
          st3 = click link st2
      in removeChild link st3)"

text \<open>The text \<^verbatim>\<open>csv\<close> of \<^verbatim>\<open>handleDownloadHeaderCSV\<close>.\<close>

definition headerCSV :: string where
  "headerCSV =
     Papa_unparse_arrays
       [[''firstname'', ''lastname'', ''username'', ''uid'', ''password'', ''email'', ''membershipplanid'']]"

definition handleDownloadHeaderCSV :: "State \<Rightarrow> State" where
  "handleDownloadHeaderCSV st = downloadLink [Chars headerCSV] ''csv_header_format.csv'' st"

definition handleDownloadCSV :: "State \<Rightarrow> State" where
  "handleDownloadCSV st =
     (if length (validatedData st) = 0 then st
      else
        let csv = Papa_unparse_objects (validatedData st)
        in downloadLink csv ''activation_results.csv'' st)"

subsection \<open>Runs of the component\<close>

text \<open>What the user can do, and the state after a sequence of such events.\<close>

datatype event =
    Clear
  | Upload network "nat list" "string option"
  | DownloadHeader
  | DownloadResults

definition handle :: "(string \<Rightarrow> bool) \<Rightarrow> State \<Rightarrow> event \<Rightarrow> State" where
  "handle emailRegex st ev =
     (case ev of
        Clear \<Rightarrow> handleClear st
      | Upload net order file \<Rightarrow> handleFileUpload emailRegex net order file st
      | DownloadHeader \<Rightarrow> handleDownloadHeaderCSV st
      | DownloadResults \<Rightarrow> handleDownloadCSV st)"

definition run :: "(string \<Rightarrow> bool) \<Rightarrow> event list \<Rightarrow> State" where
  "run emailRegex evs = foldl (handle emailRegex) initialState evs"

text \<open>The three statuses a retained row can have.\<close>

definition statusOK :: "ExtendedCsvRow \<Rightarrow> bool" where
  "statusOK row = (activationStatus row \<in> {''Activated'', ''Inactive'', ''Error''})"

text \<open>\<^verbatim>\<open>parseResult.error.errors\<close>, and no issues for a success.\<close>

definition issuesOf :: "SafeParseReturnType \<Rightarrow> ZodIssue list" where
  "issuesOf r = (case r of SafeParseSuccess v \<Rightarrow> [] | SafeParseError errs \<Rightarrow> errs)"

section \<open>Sample inputs\<close>

text \<open>
  The inputs of the instances below: a stand-in for zod's email pattern, two well-formed
  rows, an endpoint that activates the first request, lets the second fail, answers the
  third with \<^verbatim>\<open>{"response": false}\<close> and every later one with \<^verbatim>\<open>null\<close>, and two CSV texts.
\<close>

definition sampleEmailRegex :: "string \<Rightarrow> bool" where
  "sampleEmailRegex s = (CHR ''@'' \<in> set s)"

definition sampleRow :: RawRow where
  "sampleRow =
     rowObject expectedHeaders
       [''Ada'', ''Lovelace'', ''ada'', ''42'', ''secret'', ''ada@example.org'', ''3'']"

text \<open>The two valid rows of the sample file, as the schema returns them.\<close>

definition adaRow :: CsvRow where
  "adaRow =
     \<lparr>firstname = ''Ada'', lastname = ''Lovelace'', username = ''ada'', uid = Finite False 42,
      password = ''secret'', email = ''ada@example.org'', membershipplanid = Finite False 3\<rparr>"

definition graceRow :: CsvRow where
  "graceRow =
     \<lparr>firstname = ''Grace'', lastname = ''Hopper'', username = ''grace'', uid = Finite False 3,
      password = ''secret'', email = ''grace@example.org'', membershipplanid = Finite False 42\<rparr>"

definition graceRaw :: RawRow where
  "graceRaw =
     rowObject expectedHeaders
       [''Grace'', ''Hopper'', ''grace'', ''3'', ''secret'', ''grace@example.org'', ''42'']"

definition sampleNet :: network where
  "sampleNet k url =
     (if k = 0 then JsonResolves (JObject [(''response'', JBool True)])
      else if k = 1 then FetchRejects (JsError ''TypeError'' ''Failed to fetch'')
      else if k = 2 then JsonResolves (JObject [(''response'', JBool False)])
      else JsonResolves JNull)"

definition sampleCSV :: string where
  "sampleCSV =
     ''firstname,lastname,username,uid,password,email,membershipplanid'' @ [LF]
     @ ''Ada,Lovelace,ada,42,secret,ada@example.org,3'' @ [LF]
     @ ''Grace,Hopper,grace,3,secret,grace@example.org,42'' @ [LF]"

text \<open>A file whose first header cell is quoted and holds two names, and one data row.\<close>

definition joinedHeaderCSV :: string where
  "joinedHeaderCSV =
     [quoteChar] @ ''firstname,lastname'' @ [quoteChar] @ '',username,uid,password,email,membershipplanid''
     @ [LF] @ [quoteChar] @ ''Ada,Lovelace'' @ [quoteChar] @ '',ada,42,secret,ada@example.org,3''"

section \<open>Properties of the schema validator\<close>

lemmas field_parsers =
  parse_firstname_def parse_lastname_def parse_username_def parse_uid_def
  parse_password_def parse_email_def parse_membershipplanid_def

text \<open>
  The number parser with its refinement: a coercion result that is not a number aborts
  with zod's own issue, and the refinement of the source never adds one.
\<close>

lemma coerce_refine_cases:
  "ZodEffects_refine (\<lambda>val. \<not> Number_isNaN val) msg p (ZodNumber_coerce_parse p input) =
     (if Number_of input = NaN
      then ([\<lparr>code = invalid_type, path = p, message = ''Expected number, received nan''\<rparr>], INVALID)
      else ([], OK (Number_of input)))"
  by (simp add: ZodEffects_refine_def ZodNumber_coerce_parse_def Number_isNaN_def Let_def)

lemma nonempty_parse_cases:
  "ZodString_parse em [MinLength (Suc 0) msg] p input =
     (case input of
        None \<Rightarrow> ([\<lparr>code = invalid_type, path = p, message = ''Required''\<rparr>], INVALID)
      | Some s \<Rightarrow> if s = [] then ([\<lparr>code = too_small, path = p, message = msg\<rparr>], DIRTY s) else ([], OK s))"
  by (simp add: ZodString_parse_def ZodString_check_def Let_def split: option.splits)

lemma email_parse_cases:
  "ZodString_parse em [Email msg] p input =
     (case input of
        None \<Rightarrow> ([\<lparr>code = invalid_type, path = p, message = ''Required''\<rparr>], INVALID)
      | Some s \<Rightarrow> if em s then ([], OK s) else ([\<lparr>code = invalid_string, path = p, message = msg\<rparr>], DIRTY s))"
  by (simp add: ZodString_parse_def ZodString_check_def Let_def split: option.splits)

lemmas field_cases = field_parsers coerce_refine_cases nonempty_parse_cases email_parse_cases

text \<open>The issues that \<^verbatim>\<open>safeParse\<close> reports are those of the seven parsers, in shape order.\<close>

lemma safeParse_issues:
  "issuesOf (safeParse em row) = csvSchema_issues em row"
proof -
  have "csvSchema_issues em row = []" if "\<exists>v. snd (csvSchema_parse em row) = OK v"
    using that
    by (auto simp: csvSchema_parse_def csvSchema_issues_def Let_def field_cases parsedValue_def isOK_def
             split: option.splits if_splits ParseReturn.splits)
  then show ?thesis
    by (auto simp: safeParse_def issuesOf_def csvSchema_parse_def Let_def split: prod.splits ParseReturn.splits)
qed

lemma safeParse_success:
  assumes "row ''firstname'' = Some v1" "v1 \<noteq> []"
    and "row ''lastname'' = Some v2" "v2 \<noteq> []"
    and "row ''username'' = Some v3" "v3 \<noteq> []"
    and "row ''uid'' = Some u" "StringToNumber u \<noteq> NaN"
    and "row ''password'' = Some v5" "v5 \<noteq> []"
    and "row ''email'' = Some e" "em e"
    and "row ''membershipplanid'' = Some p" "StringToNumber p \<noteq> NaN"
  shows "safeParse em row =
           SafeParseSuccess \<lparr>firstname = v1, lastname = v2, username = v3, uid = StringToNumber u,
                             password = v5, email = e, membershipplanid = StringToNumber p\<rparr>"
  using assms
  by (simp add: safeParse_def csvSchema_parse_def Let_def field_cases parsedValue_def isOK_def Number_of_def)

lemma StringToNumber_empty: "StringToNumber [] = Finite False 0"
  by (simp add: StringToNumber_def js_trim_def)

lemma string_issue_path:
  "i \<in> set (fst (ZodString_parse em checks p input)) \<Longrightarrow> path i = p"
proof -
  have "path i = p" if "i \<in> set (ZodString_check em p s ch)" for s ch
    using that by (cases ch) (auto simp: ZodString_check_def split: if_splits)
  then show "i \<in> set (fst (ZodString_parse em checks p input)) \<Longrightarrow> path i = p"
    by (auto simp: ZodString_parse_def Let_def split: option.splits)
qed

lemma number_issue_path:
  "i \<in> set (fst (ZodEffects_refine (\<lambda>val. \<not> Number_isNaN val) msg p (ZodNumber_coerce_parse p input)))
     \<Longrightarrow> path i = p"
  by (simp add: coerce_refine_cases split: if_splits)

lemma filter_path:
  assumes "\<And>i. i \<in> set xs \<Longrightarrow> path i = q"
  shows "filter (\<lambda>i. path i = p) xs = (if p = q then xs else [])"
  using assms by (induction xs) auto

text \<open>The issues of one path come from the parser of that field alone.\<close>

lemma issues_at_path:
  "filter (\<lambda>i. path i = p) (csvSchema_issues em row) =
     (if p = [''firstname''] then fst (parse_firstname em row) else [])
     @ (if p = [''lastname''] then fst (parse_lastname em row) else [])
     @ (if p = [''username''] then fst (parse_username em row) else [])
     @ (if p = [''uid''] then fst (parse_uid row) else [])
     @ (if p = [''password''] then fst (parse_password em row) else [])
     @ (if p = [''email''] then fst (parse_email em row) else [])
     @ (if p = [''membershipplanid''] then fst (parse_membershipplanid row) else [])"
proof -
  have s: "filter (\<lambda>i. path i = p) (fst (ZodString_parse em checks q input))
             = (if p = q then fst (ZodString_parse em checks q input) else [])" for checks q input
    by (rule filter_path) (rule string_issue_path)
  have n: "filter (\<lambda>i. path i = p)
              (fst (ZodEffects_refine (\<lambda>val. \<not> Number_isNaN val) msg q (ZodNumber_coerce_parse q input)))
             = (if p = q then fst (ZodEffects_refine (\<lambda>val. \<not> Number_isNaN val) msg q
                                     (ZodNumber_coerce_parse q input)) else [])" for msg q input
    by (rule filter_path) (rule number_issue_path)
  show ?thesis
    unfolding csvSchema_issues_def filter_append field_parsers s n ..
qed

subsection \<open>The sample row\<close>

lemma sampleRow_fields:
  "sampleRow ''firstname'' = Some ''Ada''"
  "sampleRow ''lastname'' = Some ''Lovelace''"
  "sampleRow ''username'' = Some ''ada''"
  "sampleRow ''uid'' = Some ''42''"
  "sampleRow ''password'' = Some ''secret''"
  "sampleRow ''email'' = Some ''ada@example.org''"
  "sampleRow ''membershipplanid'' = Some ''3''"
  by (simp_all add: sampleRow_def rowObject_def expectedHeaders_def)

lemma Number_42: "StringToNumber ''42'' = Finite False 42"
  by code_simp

lemma Number_3: "StringToNumber ''3'' = Finite False 3"
  by code_simp

lemma Number_Infinity: "StringToNumber ''Infinity'' = Infinity False"
  by code_simp

lemma Number_abc: "StringToNumber ''abc'' = NaN"
  by code_simp

lemmas sample_numbers = Number_42 Number_3 Number_Infinity Number_abc

lemma safeParse_sampleRow:
  "safeParse sampleEmailRegex sampleRow = SafeParseSuccess adaRow"
proof -
  have "safeParse sampleEmailRegex sampleRow =
     SafeParseSuccess \<lparr>firstname = ''Ada'', lastname = ''Lovelace'', username = ''ada'',
                       uid = StringToNumber ''42'', password = ''secret'', email = ''ada@example.org'',
                       membershipplanid = StringToNumber ''3''\<rparr>"
    by (rule safeParse_success) (simp_all add: sampleRow_fields sample_numbers sampleEmailRegex_def)
  then show ?thesis
    by (simp add: sample_numbers adaRow_def)
qed

lemma natToString_digits:
  "natToString (Suc 0) = ''1''" "natToString 2 = ''2''"
  by (simp_all add: natToString.simps digitChar_def)

subsection \<open>Claim C2: the four text fields\<close>

text \<open>
  Claim C2 says that \<^verbatim>\<open>firstname\<close>, \<^verbatim>\<open>lastname\<close>, \<^verbatim>\<open>username\<close> and \<^verbatim>\<open>password\<close> fail
  exactly when the trimmed value is empty, so that a field of white space only is
  rejected.  The schema does not trim: \<^verbatim>\<open>nonempty\<close> looks at the length of the value as it
  is.  Counterexample to C2: the first name that is one space has an empty trimmed value,
  and the record is accepted with that first name.
\<close>

theorem nonempty_whitespace_counterexample:
  "js_trim '' '' = [] \<and>
   safeParse sampleEmailRegex (sampleRow(''firstname'' \<mapsto> '' '')) =
     SafeParseSuccess \<lparr>firstname = '' '', lastname = ''Lovelace'', username = ''ada'',
                       uid = Finite False 42, password = ''secret'', email = ''ada@example.org'',
                       membershipplanid = Finite False 3\<rparr>"
proof -
  have "js_trim '' '' = []"
    by (simp add: js_trim_def isStrWhiteSpaceChar_def)
  moreover have "safeParse sampleEmailRegex (sampleRow(''firstname'' \<mapsto> '' '')) =
     SafeParseSuccess \<lparr>firstname = '' '', lastname = ''Lovelace'', username = ''ada'',
                       uid = StringToNumber ''42'', password = ''secret'', email = ''ada@example.org'',
                       membershipplanid = StringToNumber ''3''\<rparr>"
    by (rule safeParse_success) (simp_all add: sampleRow_fields sample_numbers sampleEmailRegex_def)
  ultimately show ?thesis
    by (simp add: sample_numbers)
qed

text \<open>
  Claim C2, amended: for a record that has the field \<open>f\<close>, one of \<^verbatim>\<open>firstname\<close>,
  \<^verbatim>\<open>lastname\<close>, \<^verbatim>\<open>username\<close> and \<^verbatim>\<open>password\<close>, with the value \<open>v\<close>, the validator reports
  for that field exactly one issue, of kind \<open>too_small\<close> with the field's message, when
  \<open>v\<close> is the empty string, and no issue when \<open>v\<close> is any other string, white space
  included.
\<close>

theorem nonempty_rejects_empty_only:
  assumes "(f, m) \<in> set [(''firstname'', ''First name is required''), (''lastname'', ''Last name is required''),
                       (''username'', ''Username is required''), (''password'', ''Password is required'')]"
    and "row f = Some v"
  shows "filter (\<lambda>issue. path issue = [f]) (issuesOf (safeParse emailRegex row))
           = (if v = [] then [\<lparr>code = too_small, path = [f], message = m\<rparr>] else [])"
proof -
  from assms(1) have fm:
    "(f = ''firstname'' \<and> m = ''First name is required'')
     \<or> (f = ''lastname'' \<and> m = ''Last name is required'')
     \<or> (f = ''username'' \<and> m = ''Username is required'')
     \<or> (f = ''password'' \<and> m = ''Password is required'')"
    by (simp only: list.set insert_iff empty_iff prod.inject simp_thms)
  then show ?thesis
  proof (elim disjE conjE)
    assume "f = ''firstname''" "m = ''First name is required''"
    then show ?thesis
      using assms(2) by (simp add: safeParse_issues issues_at_path parse_firstname_def nonempty_parse_cases)
  next
    assume "f = ''lastname''" "m = ''Last name is required''"
    then show ?thesis
      using assms(2) by (simp add: safeParse_issues issues_at_path parse_lastname_def nonempty_parse_cases)
  next
    assume "f = ''username''" "m = ''Username is required''"
    then show ?thesis
      using assms(2) by (simp add: safeParse_issues issues_at_path parse_username_def nonempty_parse_cases)
  next
    assume "f = ''password''" "m = ''Password is required''"
    then show ?thesis
      using assms(2) by (simp add: safeParse_issues issues_at_path parse_password_def nonempty_parse_cases)
  qed
qed

text \<open>Instance for C2, amended: the sample row with an empty first name.\<close>

theorem nonempty_rejects_empty_only_witness:
  "filter (\<lambda>issue. path issue = [''firstname''])
          (issuesOf (safeParse sampleEmailRegex (sampleRow(''firstname'' \<mapsto> []))))
     = [\<lparr>code = too_small, path = [''firstname''], message = ''First name is required''\<rparr>]"
  using nonempty_rejects_empty_only
          [of "''firstname''" "''First name is required''" "sampleRow(''firstname'' \<mapsto> [])" "[]" sampleEmailRegex]
  by simp

subsection \<open>Claim C3: the two numeric fields\<close>

text \<open>
  Claim C3 says that \<^verbatim>\<open>uid\<close> and \<^verbatim>\<open>membershipplanid\<close> fail exactly when the coercion
  result is not a finite number, so that a text coercing to Infinity is rejected.  The
  refinement of the source tests \<^verbatim>\<open>Number.isNaN\<close> only, and zod's number parser accepts
  the infinities.  Counterexample to C3: the text \<^verbatim>\<open>Infinity\<close> coerces to the infinity,
  which is not finite, and the record is accepted with that \<^verbatim>\<open>uid\<close>.
\<close>

theorem coerce_infinity_counterexample:
  "StringToNumber ''Infinity'' = Infinity False \<and> \<not> Number_isFinite (Infinity False) \<and>
   safeParse sampleEmailRegex (sampleRow(''uid'' \<mapsto> ''Infinity'')) =
     SafeParseSuccess \<lparr>firstname = ''Ada'', lastname = ''Lovelace'', username = ''ada'',
                       uid = Infinity False, password = ''secret'', email = ''ada@example.org'',
                       membershipplanid = Finite False 3\<rparr>"
proof -
  have "safeParse sampleEmailRegex (sampleRow(''uid'' \<mapsto> ''Infinity'')) =
     SafeParseSuccess \<lparr>firstname = ''Ada'', lastname = ''Lovelace'', username = ''ada'',
                       uid = StringToNumber ''Infinity'', password = ''secret'', email = ''ada@example.org'',
                       membershipplanid = StringToNumber ''3''\<rparr>"
    by (rule safeParse_success) (simp_all add: sampleRow_fields sample_numbers sampleEmailRegex_def)
  then show ?thesis
    by (simp add: sample_numbers Number_isFinite_def)
qed

text \<open>
  Claim C3, amended: for a record that has the field \<open>f\<close>, one of \<^verbatim>\<open>uid\<close> and
  \<^verbatim>\<open>membershipplanid\<close>, with the text \<open>t\<close>, the validator reports for that field exactly
  one issue, of kind \<open>invalid_type\<close> (expected number, received nan), when \<^verbatim>\<open>Number(t)\<close>
  is not a number, and no issue otherwise; a text that coerces to an infinity is
  accepted.
\<close>

theorem coerce_rejects_nan_only:
  assumes "f = ''uid'' \<or> f = ''membershipplanid''"
    and "row f = Some t"
  shows "filter (\<lambda>issue. path issue = [f]) (issuesOf (safeParse emailRegex row))
           = (if StringToNumber t = NaN
              then [\<lparr>code = invalid_type, path = [f], message = ''Expected number, received nan''\<rparr>]
              else [])"
  using assms(1)
proof
  assume "f = ''uid''"
  then show ?thesis
    using assms(2) by (simp add: safeParse_issues issues_at_path parse_uid_def coerce_refine_cases Number_of_def)
next
  assume "f = ''membershipplanid''"
  then show ?thesis
    using assms(2)
    by (simp add: safeParse_issues issues_at_path parse_membershipplanid_def coerce_refine_cases Number_of_def)
qed

text \<open>Instance for C3, amended: the sample row with the \<^verbatim>\<open>uid\<close> text \<^verbatim>\<open>abc\<close>.\<close>

theorem coerce_rejects_nan_only_witness:
  "filter (\<lambda>issue. path issue = [''uid''])
          (issuesOf (safeParse sampleEmailRegex (sampleRow(''uid'' \<mapsto> ''abc''))))
     = [\<lparr>code = invalid_type, path = [''uid''], message = ''Expected number, received nan''\<rparr>]"
  using coerce_rejects_nan_only [of "''uid''" "sampleRow(''uid'' \<mapsto> ''abc'')" "''abc''" sampleEmailRegex]
  by (simp add: Number_abc)

subsection \<open>Claim C9: the empty numeric text\<close>

text \<open>
  Claim C9: a record whose \<^verbatim>\<open>uid\<close> or \<^verbatim>\<open>membershipplanid\<close> is the empty string, and
  whose other fields satisfy their constraints, is accepted, and the validated row has
  the number 0 in that field.
\<close>

theorem empty_numeric_text_is_zero:
  assumes "row ''firstname'' = Some v1" "v1 \<noteq> []"
    and "row ''lastname'' = Some v2" "v2 \<noteq> []"
    and "row ''username'' = Some v3" "v3 \<noteq> []"
    and "row ''password'' = Some v5" "v5 \<noteq> []"
    and "row ''email'' = Some e" "emailRegex e"
    and "row ''uid'' = Some u" "row ''membershipplanid'' = Some p"
    and "(u = [] \<and> StringToNumber p \<noteq> NaN) \<or> (p = [] \<and> StringToNumber u \<noteq> NaN)"
  shows "safeParse emailRegex row =
           SafeParseSuccess \<lparr>firstname = v1, lastname = v2, username = v3,
                             uid = (if u = [] then Finite False 0 else StringToNumber u),
                             password = v5, email = e,
                             membershipplanid = (if p = [] then Finite False 0 else StringToNumber p)\<rparr>"
proof -
  have "StringToNumber u \<noteq> NaN" "StringToNumber p \<noteq> NaN"
    using assms(13) by (auto simp: StringToNumber_empty)
  then have "safeParse emailRegex row =
           SafeParseSuccess \<lparr>firstname = v1, lastname = v2, username = v3, uid = StringToNumber u,
                             password = v5, email = e, membershipplanid = StringToNumber p\<rparr>"
    using assms by (intro safeParse_success) simp_all
  then show ?thesis
    by (simp add: StringToNumber_empty)
qed

text \<open>Instance for C9: the sample row with an empty \<^verbatim>\<open>uid\<close>.\<close>

theorem empty_numeric_text_is_zero_witness:
  "safeParse sampleEmailRegex (sampleRow(''uid'' \<mapsto> [])) =
     SafeParseSuccess \<lparr>firstname = ''Ada'', lastname = ''Lovelace'', username = ''ada'',
                       uid = Finite False 0, password = ''secret'', email = ''ada@example.org'',
                       membershipplanid = Finite False 3\<rparr>"
  using empty_numeric_text_is_zero
          [of "sampleRow(''uid'' \<mapsto> [])" "''Ada''" "''Lovelace''" "''ada''" "''secret''"
              "''ada@example.org''" sampleEmailRegex "[]" "''3''"]
  by (simp add: sampleRow_fields sample_numbers sampleEmailRegex_def)

section \<open>Properties of the row processor\<close>

lemma forEach_row_acc:
  "forEach_row em rows index validRows errorList =
     (validRows @ spec_validRows em rows,
      errorList @ concat (map (\<lambda>(i, row). spec_rowErrors em (i + 1) row) (enumerate index rows)))"
proof (induction rows arbitrary: index validRows errorList)
  case Nil
  show ?case by (simp add: spec_validRows_def)
next
  case (Cons row rows)
  show ?case
  proof (cases "safeParse em row")
    case (SafeParseSuccess parsed)
    then show ?thesis
      by (simp add: Cons.IH spec_validRows_def spec_rowErrors_def)
  next
    case (SafeParseError errs)
    then show ?thesis
      by (simp add: Cons.IH spec_validRows_def spec_rowErrors_def rowError_def)
  qed
qed

lemma processRows_Nil: "processRows emailRegex [] = ([], [])"
  by (simp add: processRows_def)

text \<open>
  Claim C6: the row processor validates every record on its own; its first output is
  the valid rows in their original order, without their positions, and its second output
  is, record by record, one string \<^verbatim>\<open>Row <position> - <field path>: <message>\<close> per issue
  of the record, the position counted from 1 in the decoded sequence.
\<close>

theorem row_processor_refines_spec:
  "processRows emailRegex rows = (spec_validRows emailRegex rows, spec_errorList emailRegex rows)"
  by (simp add: processRows_def forEach_row_acc spec_errorList_def)

text \<open>
  Instance for C6: an invalid record with two failing fields, followed by the sample
  row.
\<close>

theorem row_processor_refines_spec_witness:
  "processRows sampleEmailRegex [sampleRow(''uid'' \<mapsto> ''abc'', ''email'' \<mapsto> ''nobody''), sampleRow] =
     ([adaRow],
      [''Row 1 - uid: Expected number, received nan'', ''Row 1 - email: Invalid email format''])"
proof -
  have bad: "safeParse sampleEmailRegex (sampleRow(''uid'' \<mapsto> ''abc'', ''email'' \<mapsto> ''nobody'')) =
     SafeParseError [\<lparr>code = invalid_type, path = [''uid''], message = ''Expected number, received nan''\<rparr>,
                     \<lparr>code = invalid_string, path = [''email''], message = ''Invalid email format''\<rparr>]"
    by (simp add: safeParse_def csvSchema_parse_def csvSchema_issues_def Let_def field_cases parsedValue_def
        isOK_def Number_of_def sampleRow_fields sample_numbers sampleEmailRegex_def)
  show ?thesis
    using row_processor_refines_spec
            [of sampleEmailRegex "[sampleRow(''uid'' \<mapsto> ''abc'', ''email'' \<mapsto> ''nobody''), sampleRow]"]
    by (simp add: spec_validRows_def spec_errorList_def spec_rowErrors_def safeParse_sampleRow bad
        natToString_digits)
qed

section \<open>Properties of the activation lookup\<close>

lemma fetch_fulfils:
  "fetchActivationStatusForRow net row sent =
     (Inr (withStatus row (spec_activationStatus (net (length sent) (apiUrl row)))),
      sent @ [apiUrl row])"
proof (cases "net (length sent) (apiUrl row)")
  case (JsonResolves result)
  then show ?thesis
    by (cases result)
       (simp_all add: fetchActivationStatusForRow_def fetchActivationStatusForRow_try_def fetch_def
          get_response_def spec_activationStatus_def)
qed (simp_all add: fetchActivationStatusForRow_def fetchActivationStatusForRow_try_def fetch_def
       spec_activationStatus_def)

lemma spec_activationStatus_range:
  "spec_activationStatus outcome \<in> {''Activated'', ''Inactive'', ''Error''}"
proof (cases outcome)
  case (JsonResolves result)
  then show ?thesis
    by (cases result) (simp_all add: spec_activationStatus_def)
qed (simp_all add: spec_activationStatus_def)

lemma withStatus_statusOK:
  "statusOK (withStatus row (spec_activationStatus outcome))"
  using spec_activationStatus_range [of outcome] by (simp add: statusOK_def withStatus_def)

lemma spec_annotatedRows_Nil: "spec_annotatedRows net n [] = []"
  by (simp add: spec_annotatedRows_def)

lemma spec_annotatedRows_Cons:
  "spec_annotatedRows net n (row # rows) =
     withStatus row (spec_activationStatus (net n (apiUrl row))) # spec_annotatedRows net (Suc n) rows"
  by (simp add: spec_annotatedRows_def withStatus_def enumerate_Suc_eq split_def)

text \<open>
  Every lookup fulfils, with the row it was given, and sends one request: the promises
  of a batch are the annotated rows in row order, and the requests are the rows' URLs in
  row order.
\<close>

lemma lookups_fulfil:
  "lookups net rows sent =
     (map Inr (spec_annotatedRows net (length sent) rows), sent @ map apiUrl rows)"
proof (induction rows arbitrary: sent)
  case Nil
  show ?case by (simp add: spec_annotatedRows_Nil)
next
  case (Cons row rows)
  show ?case
    by (simp add: fetch_fulfils Cons.IH spec_annotatedRows_Cons)
qed

text \<open>
  Claim C1: for every valid row and every way the request can end, the lookup resolves
  to an annotated row and never rejects.  The annotated row has the seven fields of the
  row it was given, and its \<^verbatim>\<open>activationStatus\<close> is \<^verbatim>\<open>Activated\<close> when the payload's
  \<^verbatim>\<open>response\<close> is \<^verbatim>\<open>true\<close>, \<^verbatim>\<open>Inactive\<close> for every other payload that can be read, and
  \<^verbatim>\<open>Error\<close> when \<^verbatim>\<open>fetch\<close> rejects, the body does not parse, or reading the payload
  throws.  The call sends one request, with the row's two numbers in its URL.
\<close>

theorem lookup_always_resolves:
  "fetchActivationStatusForRow net row sent =
     (Inr \<lparr>firstname = firstname row, lastname = lastname row, username = username row,
           uid = uid row, password = password row, email = email row,
           membershipplanid = membershipplanid row,
           activationStatus =
             (case net (length sent) (apiUrl row) of
                FetchRejects e \<Rightarrow> ''Error''
              | JsonRejects e \<Rightarrow> ''Error''
              | JsonResolves result \<Rightarrow>
                  (case result of
                     JNull \<Rightarrow> ''Error''
                   | JObject props \<Rightarrow>
                       if map_of props ''response'' = Some (JBool True) then ''Activated''
                       else ''Inactive''
                   | _ \<Rightarrow> ''Inactive''))\<rparr>,
      sent @ [[Chars ''/api/?ihc_action=api-gate&ihch=F4ARzxSFjQpZxqjt5jiJn7HlXqMu23Y&action=user_add_level&uid='',
               NumberText (uid row), Chars ''&lid='', NumberText (membershipplanid row)]])"
  using fetch_fulfils [of net row sent]
  by (simp add: spec_activationStatus_def withStatus_def apiUrl_def)

text \<open>
  Instance for C1: the sample endpoint answers the first request with
  \<^verbatim>\<open>{"response": true}\<close>, lets the second one fail, answers the third with
  \<^verbatim>\<open>{"response": false}\<close> and the fourth with \<^verbatim>\<open>null\<close>.
\<close>

theorem lookup_always_resolves_witness:
  "fetchActivationStatusForRow sampleNet adaRow [] =
     (Inr \<lparr>firstname = ''Ada'', lastname = ''Lovelace'', username = ''ada'', uid = Finite False 42,
           password = ''secret'', email = ''ada@example.org'', membershipplanid = Finite False 3,
           activationStatus = ''Activated''\<rparr>,
      [[Chars ''/api/?ihc_action=api-gate&ihch=F4ARzxSFjQpZxqjt5jiJn7HlXqMu23Y&action=user_add_level&uid='',
        NumberText (Finite False 42), Chars ''&lid='', NumberText (Finite False 3)]])
   \<and> fst (fetchActivationStatusForRow sampleNet adaRow [[Chars ''a'']]) =
     Inr \<lparr>firstname = ''Ada'', lastname = ''Lovelace'', username = ''ada'', uid = Finite False 42,
          password = ''secret'', email = ''ada@example.org'', membershipplanid = Finite False 3,
          activationStatus = ''Error''\<rparr>
   \<and> fst (fetchActivationStatusForRow sampleNet adaRow [[Chars ''a''], [Chars ''b'']]) =
     Inr \<lparr>firstname = ''Ada'', lastname = ''Lovelace'', username = ''ada'', uid = Finite False 42,
          password = ''secret'', email = ''ada@example.org'', membershipplanid = Finite False 3,
          activationStatus = ''Inactive''\<rparr>
   \<and> fst (fetchActivationStatusForRow sampleNet adaRow [[Chars ''a''], [Chars ''b''], [Chars ''c'']]) =
     Inr \<lparr>firstname = ''Ada'', lastname = ''Lovelace'', username = ''ada'', uid = Finite False 42,
          password = ''secret'', email = ''ada@example.org'', membershipplanid = Finite False 3,
          activationStatus = ''Error''\<rparr>"
  using lookup_always_resolves [of sampleNet adaRow "[]"]
        lookup_always_resolves [of sampleNet adaRow "[[Chars ''a'']]"]
        lookup_always_resolves [of sampleNet adaRow "[[Chars ''a''], [Chars ''b'']]"]
        lookup_always_resolves [of sampleNet adaRow "[[Chars ''a''], [Chars ''b''], [Chars ''c'']]"]
  by (simp add: sampleNet_def adaRow_def)

section \<open>Properties of \<^verbatim>\<open>Promise.all\<close>\<close>

lemma count_None_update:
  "i < length xs \<Longrightarrow> xs ! i = None \<Longrightarrow>
     count_list (xs[i := Some v]) None = count_list xs None - 1 \<and> 0 < count_list xs None"
proof (induction xs arbitrary: i)
  case Nil
  then show ?case by simp
next
  case (Cons x xs)
  then show ?case by (cases i) auto
qed

lemma count_None_pos:
  "0 < count_list xs None \<Longrightarrow> \<exists>j<length xs. xs ! j = None"
  by (induction xs) (auto split: if_splits)

lemma count_None_zero:
  "count_list xs None = 0 \<Longrightarrow> j < length xs \<Longrightarrow> xs ! j \<noteq> None"
  using count_None_pos [of xs] nth_mem [of j xs] by (metis count_list_0_iff)

lemma count_None_replicate:
  "count_list (replicate n None) None = n"
  by (induction n) simp_all

lemma settle_sound:
  assumes "length slots = length ps"
    and "remaining = count_list slots None"
    and "\<forall>j<length ps. slots ! j = None \<or> ps ! j = Inr (the (slots ! j))"
    and "Promise_all_settle ps order slots remaining = Fulfilled vs"
  shows "map Inr vs = ps"
  using assms
proof (induction order arbitrary: slots remaining)
  case Nil
  then show ?case by simp
next
  case (Cons i order)
  show ?case
  proof (cases "i < length ps \<and> slots ! i = None")
    case False
    have "Promise_all_settle ps (i # order) slots remaining
            = Promise_all_settle ps order slots remaining"
      by (simp only: Promise_all_settle.simps False if_False)
    with Cons.prems(4) have "Promise_all_settle ps order slots remaining = Fulfilled vs"
      by simp
    with Cons.IH Cons.prems(1-3) show ?thesis by blast
  next
    case True
    show ?thesis
    proof (cases "ps ! i")
      case (Inl e)
      with True Cons.prems(4) show ?thesis by simp
    next
      case (Inr v)
      let ?slots = "slots[i := Some v]"
      have len: "length ?slots = length ps"
        using Cons.prems(1) by simp
      have cnt: "count_list ?slots None = remaining - 1"
        using True Cons.prems(1,2) count_None_update [of i slots v] by simp
      have inv: "\<forall>j<length ps. ?slots ! j = None \<or> ps ! j = Inr (the (?slots ! j))"
        using Cons.prems(1,3) Inr True by (auto simp: nth_list_update)
      show ?thesis
      proof (cases "remaining - 1 = 0")
        case False
        with True Inr Cons.prems(4)
        have "Promise_all_settle ps order ?slots (remaining - 1) = Fulfilled vs"
          by simp
        with Cons.IH [OF len cnt [symmetric] inv] show ?thesis .
      next
        case last: True
        with True Inr Cons.prems(4) have vs: "vs = map the ?slots"
          by simp
        have "\<forall>j<length ps. ?slots ! j \<noteq> None"
          using count_None_zero [of ?slots] cnt last len by simp
        with inv have "\<forall>j<length ps. ps ! j = Inr (the (?slots ! j))"
          by blast
        then show ?thesis
          unfolding vs using len by (intro nth_equalityI) simp_all
      qed
    qed
  qed
qed

lemma settle_progress:
  assumes "length slots = length ps"
    and "remaining = count_list slots None"
    and "0 < remaining"
    and "\<forall>j<length ps. \<exists>v. ps ! j = Inr v"
    and "\<forall>j<length ps. slots ! j = None \<longrightarrow> j \<in> set order"
  shows "\<exists>vs. Promise_all_settle ps order slots remaining = Fulfilled vs"
  using assms
proof (induction order arbitrary: slots remaining)
  case Nil
  then show ?case
    using count_None_pos [of slots] by auto
next
  case (Cons i order)
  show ?case
  proof (cases "i < length ps \<and> slots ! i = None")
    case False
    have "\<forall>j<length ps. slots ! j = None \<longrightarrow> j \<in> set order"
      using Cons.prems(5) False by auto
    moreover have "Promise_all_settle ps (i # order) slots remaining
                     = Promise_all_settle ps order slots remaining"
      by (simp only: Promise_all_settle.simps False if_False)
    ultimately show ?thesis
      using Cons.IH [OF Cons.prems(1-4)] by simp
  next
    case True
    then obtain v where v: "ps ! i = Inr v"
      using Cons.prems(4) by blast
    let ?slots = "slots[i := Some v]"
    have len: "length ?slots = length ps"
      using Cons.prems(1) by simp
    have cnt: "count_list ?slots None = remaining - 1"
      using True Cons.prems(1,2) count_None_update [of i slots v] by simp
    show ?thesis
    proof (cases "remaining - 1 = 0")
      case True
      with \<open>i < length ps \<and> slots ! i = None\<close> v show ?thesis by simp
    next
      case False
      have pend: "\<forall>j<length ps. ?slots ! j = None \<longrightarrow> j \<in> set order"
      proof (intro allI impI)
        fix j assume j: "j < length ps" "?slots ! j = None"
        have "j \<noteq> i"
          using j Cons.prems(1) by (auto simp: nth_list_update)
        moreover from this j(2) have "slots ! j = None"
          by simp
        ultimately show "j \<in> set order"
          using j(1) Cons.prems(5) by auto
      qed
      have "\<exists>vs. Promise_all_settle ps order ?slots (remaining - 1) = Fulfilled vs"
        using Cons.IH [OF len cnt [symmetric] _ Cons.prems(4) pend] False by simp
      with True v False show ?thesis by simp
    qed
  qed
qed

lemma Promise_all_sound:
  assumes "Promise_all ps order = Fulfilled vs"
  shows "map Inr vs = ps"
proof (cases "ps = []")
  case True
  with assms show ?thesis by (simp add: Promise_all_def)
next
  case False
  with assms have "Promise_all_settle ps order (replicate (length ps) None) (length ps) = Fulfilled vs"
    by (simp add: Promise_all_def)
  then show ?thesis
    by (intro settle_sound [where slots = "replicate (length ps) None" and remaining = "length ps"])
       (simp_all add: count_None_replicate)
qed

lemma Promise_all_fulfils:
  assumes "{..<length vs} \<subseteq> set order"
  shows "Promise_all (map Inr vs) order = Fulfilled vs"
proof (cases "vs = []")
  case True
  then show ?thesis by (simp add: Promise_all_def)
next
  case False
  have "\<exists>ws. Promise_all_settle (map Inr vs) order (replicate (length (map Inr vs)) None)
                (length (map Inr vs)) = Fulfilled ws"
    using assms False by (intro settle_progress) (auto simp: count_None_replicate)
  then obtain ws where "Promise_all (map Inr vs) order = Fulfilled ws"
    using False by (auto simp: Promise_all_def)
  moreover from this have "map Inr ws = (map Inr vs :: (js_error + 'a) list)"
    by (rule Promise_all_sound)
  then have "ws = vs"
    by (simp add: inj_map_eq_map)
  ultimately show ?thesis by simp
qed


section \<open>Properties of the component\<close>

text \<open>The text of the single error message of a header mismatch.\<close>

lemma headerError_text:
  "headerError =
     ''CSV header does not match expected order. Expected: firstname, lastname, username, uid, password, email, membershipplanid''"
  by (simp add: headerError_def expectedHeaders_def)

text \<open>
  When the header check fails, the one message replaces the error list and the retained
  rows are dropped; nothing is validated and no request is sent.
\<close>

lemma complete_mismatch:
  "headerMismatch results \<Longrightarrow>
     complete_callback emailRegex net order results st = st\<lparr>errors := [headerError], validatedData := []\<rparr>"
  by (simp add: complete_callback_def)

lemma complete_fulfilled:
  assumes "\<not> headerMismatch results"
    and "processRows emailRegex (data results) = (validRows, errorList)"
    and "{..<length validRows} \<subseteq> set order"
  shows "complete_callback emailRegex net order results st =
           st\<lparr>errors := errorList, requests := requests st @ map apiUrl validRows,
              validatedData := spec_annotatedRows net (length (requests st)) validRows,
              loading := False\<rparr>"
proof -
  have "length (spec_annotatedRows net (length (requests st)) validRows) = length validRows"
    by (simp add: spec_annotatedRows_def)
  with assms(3)
  have "Promise_all (map Inr (spec_annotatedRows net (length (requests st)) validRows)) order
          = Fulfilled (spec_annotatedRows net (length (requests st)) validRows)"
    by (intro Promise_all_fulfils) simp
  with assms(1,2) show ?thesis
    by (simp add: complete_callback_def Let_def lookups_fulfil)
qed

lemma complete_statusOK:
  assumes "list_all statusOK (validatedData st)"
  shows "list_all statusOK (validatedData (complete_callback emailRegex net order results st))"
proof (cases "headerMismatch results")
  case True
  then show ?thesis by (simp add: complete_mismatch)
next
  case False
  obtain validRows errorList where pr: "processRows emailRegex (data results) = (validRows, errorList)"
    by (cases "processRows emailRegex (data results)")
  let ?promises = "map Inr (spec_annotatedRows net (length (requests st)) validRows)
                     :: (js_error + ExtendedCsvRow) list"
  show ?thesis
  proof (cases "Promise_all ?promises order")
    case Pending
    with False pr assms show ?thesis by (simp add: complete_callback_def Let_def lookups_fulfil)
  next
    case (Rejected err)
    with False pr assms show ?thesis by (simp add: complete_callback_def Let_def lookups_fulfil)
  next
    case (Fulfilled extendedRows)
    then have "map Inr extendedRows = ?promises"
      by (rule Promise_all_sound)
    then have "extendedRows = spec_annotatedRows net (length (requests st)) validRows"
      by (simp add: inj_map_eq_map)
    then have "list_all statusOK extendedRows"
      using spec_activationStatus_range
      by (simp add: spec_annotatedRows_def list_all_iff split_def statusOK_def)
    with False pr Fulfilled show ?thesis by (simp add: complete_callback_def Let_def lookups_fulfil)
  qed
qed

text \<open>What a download does to the state: one more object URL, one more saved file.\<close>

lemma downloadLink_state:
  "downloadLink csv name st =
     st\<lparr>objectURLs := objectURLs st @ [(createdURLs st, \<lparr>content = csv, mimeType = ''text/csv;charset=utf-8;''\<rparr>)],
        createdURLs := createdURLs st + 1,
        savedFiles := savedFiles st @
          [(name, map_of (objectURLs st @ [(createdURLs st, \<lparr>content = csv, mimeType = ''text/csv;charset=utf-8;''\<rparr>)])
                    (createdURLs st))]\<rparr>"
  by (simp add: downloadLink_def createObjectURL_def appendChild_def click_def removeChild_def Let_def)

lemma handle_statusOK:
  assumes "list_all statusOK (validatedData st)"
  shows "list_all statusOK (validatedData (handle emailRegex st ev))"
proof (cases ev)
  case Clear
  then show ?thesis
    by (simp add: handle_def handleClear_def Let_def split: option.splits)
next
  case (Upload net order chosen)
  then show ?thesis
    using assms complete_statusOK
    by (simp add: handle_def handleFileUpload_def split: option.splits)
next
  case DownloadHeader
  then show ?thesis
    using assms by (simp add: handle_def handleDownloadHeaderCSV_def downloadLink_state)
next
  case DownloadResults
  then show ?thesis
    using assms by (simp add: handle_def handleDownloadCSV_def downloadLink_state Let_def)
qed

section \<open>Evaluating the CSV functions on the sample texts\<close>

lemma splitChar_absent:
  "sep \<notin> set str \<Longrightarrow> splitChar sep acc str = [acc @ str]"
  by (induction str arbitrary: acc) auto

lemma set_removeQuoted:
  "set (removeQuoted inside str) \<subseteq> set str"
  by (induction inside str rule: removeQuoted.induct) auto

text \<open>A text without a carriage return has the line ending LF.\<close>

lemma guessLineEndings_no_CR:
  assumes "CR \<notin> set input"
  shows "guessLineEndings input = [LF]"
proof -
  have "CR \<notin> set (removeQuoted False (take (1024 * 1024) input))"
    using assms set_removeQuoted [of False "take (1024 * 1024) input"] set_take_subset [of "1024 * 1024" input]
    by blast
  then show ?thesis
    by (simp add: guessLineEndings_def Let_def splitChar_absent)
qed

lemma headerCSV_text:
  "headerCSV = ''firstname,lastname,username,uid,password,email,membershipplanid''"
  by (simp add: headerCSV_def Papa_unparse_arrays_def serialize_def safe_def escapeQuotes_def
      quoteChar_def CR_def LF_def Let_def)

lemma headerCSV_delimiter: "guessDelimiter headerCSV [LF] = Some (CHR '','')"
  unfolding headerCSV_text by code_simp

lemma headerCSV_rows: "Parser_parse [LF] (CHR '','') headerCSV = [expectedHeaders]"
  unfolding headerCSV_text by code_simp

lemma Papa_parse_headerCSV:
  "Papa_parse headerCSV = \<lparr>data = [], meta_fields = Some expectedHeaders\<rparr>"
proof -
  have "CR \<notin> set headerCSV"
    by (simp add: headerCSV_text CR_def)
  then show ?thesis
    by (simp add: Papa_parse_def guessLineEndings_no_CR headerCSV_delimiter headerCSV_rows
        testEmptyLine_def expectedHeaders_def)
qed

lemma complete_headerCSV:
  "complete_callback emailRegex net order (Papa_parse headerCSV) st
     = st\<lparr>errors := [], validatedData := [], loading := False\<rparr>"
proof -
  have ok: "\<not> headerMismatch (Papa_parse headerCSV)"
    by (simp add: Papa_parse_headerCSV headerMismatch_def)
  have "complete_callback emailRegex net order (Papa_parse headerCSV) st =
           st\<lparr>errors := [], requests := requests st @ map apiUrl [],
              validatedData := spec_annotatedRows net (length (requests st)) [],
              loading := False\<rparr>"
    by (rule complete_fulfilled [OF ok]) (simp_all add: Papa_parse_headerCSV processRows_Nil)
  then show ?thesis
    by (simp add: spec_annotatedRows_def)
qed

lemma sampleCSV_delimiter: "guessDelimiter sampleCSV [LF] = Some (CHR '','')"
  by code_simp

lemma sampleCSV_rows:
  "Parser_parse [LF] (CHR '','') sampleCSV =
     [expectedHeaders,
      [''Ada'', ''Lovelace'', ''ada'', ''42'', ''secret'', ''ada@example.org'', ''3''],
      [''Grace'', ''Hopper'', ''grace'', ''3'', ''secret'', ''grace@example.org'', ''42''],
      ['''']]"
  by code_simp

lemma Papa_parse_sampleCSV:
  "Papa_parse sampleCSV = \<lparr>data = [sampleRow, graceRaw], meta_fields = Some expectedHeaders\<rparr>"
proof -
  have "CR \<notin> set sampleCSV"
    by (simp add: sampleCSV_def CR_def LF_def)
  then show ?thesis
    by (simp add: Papa_parse_def guessLineEndings_no_CR sampleCSV_delimiter sampleCSV_rows
        testEmptyLine_def sampleRow_def graceRaw_def expectedHeaders_def)
qed

lemma safeParse_graceRaw:
  "safeParse sampleEmailRegex graceRaw = SafeParseSuccess graceRow"
proof -
  have "safeParse sampleEmailRegex graceRaw =
     SafeParseSuccess \<lparr>firstname = ''Grace'', lastname = ''Hopper'', username = ''grace'',
                       uid = StringToNumber ''3'', password = ''secret'', email = ''grace@example.org'',
                       membershipplanid = StringToNumber ''42''\<rparr>"
    by (rule safeParse_success)
       (simp_all add: graceRaw_def rowObject_def expectedHeaders_def sample_numbers sampleEmailRegex_def)
  then show ?thesis
    by (simp add: sample_numbers graceRow_def)
qed

lemma complete_sampleCSV:
  "complete_callback sampleEmailRegex sampleNet [1, 0] (Papa_parse sampleCSV) initialState
     = initialState\<lparr>requests := [apiUrl adaRow, apiUrl graceRow],
                     validatedData := [withStatus adaRow ''Activated'', withStatus graceRow ''Error'']\<rparr>"
proof -
  have ok: "\<not> headerMismatch (Papa_parse sampleCSV)"
    by (simp add: Papa_parse_sampleCSV headerMismatch_def)
  have pr: "processRows sampleEmailRegex (data (Papa_parse sampleCSV)) = ([adaRow, graceRow], [])"
    by (simp add: Papa_parse_sampleCSV processRows_def safeParse_sampleRow safeParse_graceRaw)
  have all: "{..<length [adaRow, graceRow]} \<subseteq> set [1, 0 :: nat]"
    by auto
  show ?thesis
    unfolding complete_fulfilled [OF ok pr all]
    by (simp add: initialState_def spec_annotatedRows_def sampleNet_def spec_activationStatus_def
        withStatus_def)
qed

lemma joinedHeaderCSV_delimiter: "guessDelimiter joinedHeaderCSV [LF] = Some (CHR '','')"
  by code_simp

lemma joinedHeaderCSV_rows:
  "Parser_parse [LF] (CHR '','') joinedHeaderCSV =
     [[''firstname,lastname'', ''username'', ''uid'', ''password'', ''email'', ''membershipplanid''],
      [''Ada,Lovelace'', ''ada'', ''42'', ''secret'', ''ada@example.org'', ''3'']]"
  by code_simp

lemma Papa_parse_joinedHeaderCSV:
  "Papa_parse joinedHeaderCSV =
     \<lparr>data = [rowObject [''firstname,lastname'', ''username'', ''uid'', ''password'', ''email'', ''membershipplanid'']
                        [''Ada,Lovelace'', ''ada'', ''42'', ''secret'', ''ada@example.org'', ''3'']],
      meta_fields = Some [''firstname,lastname'', ''username'', ''uid'', ''password'', ''email'', ''membershipplanid'']\<rparr>"
proof -
  have "CR \<notin> set joinedHeaderCSV"
    by (simp add: joinedHeaderCSV_def CR_def LF_def quoteChar_def)
  then show ?thesis
    by (simp add: Papa_parse_def guessLineEndings_no_CR joinedHeaderCSV_delimiter joinedHeaderCSV_rows
        testEmptyLine_def)
qed


section \<open>The claims about the component\<close>

subsection \<open>Claim C5: the batch of lookups\<close>

text \<open>
  Claim C5: when the header check passes and every lookup completes, in whatever order,
  the retained rows are the valid rows in their input order: the row at position \<open>k\<close>
  has the seven fields of the valid row at position \<open>k\<close> and the status of that row's
  own lookup.  The lookups send one request per valid row, in row order, each with the
  row's two numbers in its URL, and nothing else is sent; loading ends.  With no valid
  row the result is the empty sequence and no request is sent.
\<close>

theorem batch_preserves_order:
  assumes "\<not> headerMismatch results"
    and "processRows emailRegex (data results) = (validRows, errorList)"
    and "{..<length validRows} \<subseteq> set order"
  shows "validatedData (complete_callback emailRegex net order results st)
           = map (\<lambda>(k, row).
                    \<lparr>firstname = firstname row, lastname = lastname row, username = username row,
                     uid = uid row, password = password row, email = email row,
                     membershipplanid = membershipplanid row,
                     activationStatus =
                       (case net (length (requests st) + k) (apiUrl row) of
                          FetchRejects e \<Rightarrow> ''Error''
                        | JsonRejects e \<Rightarrow> ''Error''
                        | JsonResolves result \<Rightarrow>
                            (case result of
                               JNull \<Rightarrow> ''Error''
                             | JObject props \<Rightarrow>
                                 if map_of props ''response'' = Some (JBool True)
                                 then ''Activated'' else ''Inactive''
                             | _ \<Rightarrow> ''Inactive''))\<rparr>)
               (enumerate 0 validRows)
       \<and> requests (complete_callback emailRegex net order results st)
           = requests st @
             map (\<lambda>row. [Chars ''/api/?ihc_action=api-gate&ihch=F4ARzxSFjQpZxqjt5jiJn7HlXqMu23Y&action=user_add_level&uid='',
                         NumberText (uid row), Chars ''&lid='', NumberText (membershipplanid row)])
               validRows
       \<and> \<not> loading (complete_callback emailRegex net order results st)"
  by (simp add: complete_fulfilled [OF assms] spec_annotatedRows_def spec_activationStatus_def
      apiUrl_def)

text \<open>
  Instance for C5: the sample file, whose second lookup completes before the first, and
  the header template, which has no rows.
\<close>

theorem batch_preserves_order_witness:
  "validatedData (complete_callback sampleEmailRegex sampleNet [1, 0] (Papa_parse sampleCSV) initialState)
     = [\<lparr>firstname = ''Ada'', lastname = ''Lovelace'', username = ''ada'', uid = Finite False 42,
         password = ''secret'', email = ''ada@example.org'', membershipplanid = Finite False 3,
         activationStatus = ''Activated''\<rparr>,
        \<lparr>firstname = ''Grace'', lastname = ''Hopper'', username = ''grace'', uid = Finite False 3,
         password = ''secret'', email = ''grace@example.org'', membershipplanid = Finite False 42,
         activationStatus = ''Error''\<rparr>]
   \<and> requests (complete_callback sampleEmailRegex sampleNet [1, 0] (Papa_parse sampleCSV) initialState)
     = [[Chars ''/api/?ihc_action=api-gate&ihch=F4ARzxSFjQpZxqjt5jiJn7HlXqMu23Y&action=user_add_level&uid='',
         NumberText (Finite False 42), Chars ''&lid='', NumberText (Finite False 3)],
        [Chars ''/api/?ihc_action=api-gate&ihch=F4ARzxSFjQpZxqjt5jiJn7HlXqMu23Y&action=user_add_level&uid='',
         NumberText (Finite False 3), Chars ''&lid='', NumberText (Finite False 42)]]
   \<and> validatedData (complete_callback sampleEmailRegex sampleNet [] (Papa_parse headerCSV) initialState) = []
   \<and> requests (complete_callback sampleEmailRegex sampleNet [] (Papa_parse headerCSV) initialState) = []"
proof -
  have ok: "\<not> headerMismatch (Papa_parse sampleCSV)"
    by (simp add: Papa_parse_sampleCSV headerMismatch_def)
  have pr: "processRows sampleEmailRegex (data (Papa_parse sampleCSV)) = ([adaRow, graceRow], [])"
    by (simp add: Papa_parse_sampleCSV processRows_def safeParse_sampleRow safeParse_graceRaw)
  have all: "{..<length [adaRow, graceRow]} \<subseteq> set [1, 0 :: nat]"
    by auto
  have ok0: "\<not> headerMismatch (Papa_parse headerCSV)"
    by (simp add: Papa_parse_headerCSV headerMismatch_def)
  have pr0: "processRows sampleEmailRegex (data (Papa_parse headerCSV)) = ([], [])"
    by (simp add: Papa_parse_headerCSV processRows_Nil)
  have all0: "{..<length ([] :: CsvRow list)} \<subseteq> set ([] :: nat list)"
    by simp
  show ?thesis
    using batch_preserves_order [OF ok pr all, of sampleNet initialState]
          batch_preserves_order [OF ok0 pr0 all0, of sampleNet initialState]
    by (simp add: initialState_def sampleNet_def adaRow_def graceRow_def apiUrl_def)
qed

subsection \<open>Claim C10: the statuses of the retained rows\<close>

text \<open>
  Claim C10: after any sequence of uploads (with their lookups, or with the reset of a
  header mismatch), clears and downloads, every retained row has one of the statuses
  \<^verbatim>\<open>Activated\<close>, \<^verbatim>\<open>Inactive\<close> and \<^verbatim>\<open>Error\<close>.
\<close>

theorem retained_status_invariant:
  "list_all statusOK (validatedData (run emailRegex evs))"
proof (induction evs rule: rev_induct)
  case Nil
  show ?case by (simp add: run_def initialState_def)
next
  case (snoc ev evs)
  then show ?case
    using handle_statusOK [of "run emailRegex evs" emailRegex ev] by (simp add: run_def)
qed

text \<open>Instance for C10: the upload of the sample file.\<close>

theorem retained_status_invariant_witness:
  "list_all statusOK (validatedData (run sampleEmailRegex [Upload sampleNet [1, 0] (Some sampleCSV)]))
   \<and> validatedData (run sampleEmailRegex [Upload sampleNet [1, 0] (Some sampleCSV)])
     = [withStatus adaRow ''Activated'', withStatus graceRow ''Error'']"
  using retained_status_invariant [of sampleEmailRegex "[Upload sampleNet [1, 0] (Some sampleCSV)]"]
  by (simp add: run_def handle_def handleFileUpload_def complete_sampleCSV del: One_nat_def)

subsection \<open>Claim C8: the object URL of a download\<close>

text \<open>
  Claim C8 says that the object URL created for a download is released right after the
  download is triggered.  Neither handler releases it: the source never calls
  \<^verbatim>\<open>URL.revokeObjectURL\<close>.  Counterexample to C8: after the header download from the
  initial state, the URL made for it is still registered.
\<close>

theorem object_url_not_released_counterexample:
  "objectURLs (handleDownloadHeaderCSV initialState)
     = [(0, \<lparr>content = [Chars headerCSV], mimeType = ''text/csv;charset=utf-8;''\<rparr>)]"
  by (simp add: handleDownloadHeaderCSV_def downloadLink_state initialState_def)

text \<open>
  Claim C8, amended: each download that produces a file registers one new object URL
  and leaves it registered when the handler returns; the link appended to the document
  for the click is removed again; the result download with no retained rows creates
  nothing and changes nothing.
\<close>

theorem download_keeps_object_url:
  "objectURLs (handleDownloadHeaderCSV st)
     = objectURLs st @ [(createdURLs st, \<lparr>content = [Chars headerCSV], mimeType = ''text/csv;charset=utf-8;''\<rparr>)]
   \<and> bodyChildren (handleDownloadHeaderCSV st) = bodyChildren st
   \<and> objectURLs (handleDownloadCSV st)
       = objectURLs st @
         (if validatedData st = [] then []
          else [(createdURLs st, \<lparr>content = Papa_unparse_objects (validatedData st),
                                   mimeType = ''text/csv;charset=utf-8;''\<rparr>)])
   \<and> bodyChildren (handleDownloadCSV st) = bodyChildren st
   \<and> (validatedData st = [] \<longrightarrow> handleDownloadCSV st = st)"
  by (simp add: handleDownloadHeaderCSV_def handleDownloadCSV_def downloadLink_state Let_def)

text \<open>Instance for C8, amended: both downloads from the initial state.\<close>

theorem download_keeps_object_url_witness:
  "objectURLs (handleDownloadHeaderCSV initialState)
     = objectURLs initialState @
       [(createdURLs initialState, \<lparr>content = [Chars headerCSV], mimeType = ''text/csv;charset=utf-8;''\<rparr>)]
   \<and> validatedData initialState = [] \<and> handleDownloadCSV initialState = initialState"
  using download_keeps_object_url [of initialState] by (simp add: initialState_def)

subsection \<open>Claim C7: the header template read back\<close>

text \<open>
  Claim C7: the text of the header template, fed back through the CSV decoder, passes
  the header check and has no data rows: the upload of the template ends with no error
  message, no retained row and no request.
\<close>

theorem header_template_round_trip:
  "Papa_parse headerCSV = \<lparr>data = [], meta_fields = Some expectedHeaders\<rparr>
   \<and> \<not> headerMismatch (Papa_parse headerCSV)
   \<and> handleFileUpload emailRegex net order (Some headerCSV) st
       = st\<lparr>errors := [], validatedData := [], loading := False\<rparr>"
  by (simp add: Papa_parse_headerCSV complete_headerCSV [unfolded Papa_parse_headerCSV]
      headerMismatch_def handleFileUpload_def)

text \<open>Instance for C7: the upload of the template in the initial state changes nothing.\<close>

theorem header_template_round_trip_witness:
  "handleFileUpload sampleEmailRegex sampleNet [] (Some headerCSV) initialState = initialState"
  using header_template_round_trip [of sampleEmailRegex sampleNet "[]" initialState]
  by (simp add: initialState_def)

subsection \<open>Claim C4: the header check\<close>

text \<open>
  Claim C4 says that every header that differs from the expected sequence gives the one
  header message, with no row decoded.  The check compares the names joined by commas,
  so a header whose first name is the quoted cell \<^verbatim>\<open>"firstname,lastname"\<close> passes it: the
  names differ from the expected ones (six instead of seven), the data row is decoded and
  validated, and the two messages shown are those of its missing fields, not the header
  message.
\<close>

theorem joined_header_passes_check:
  "meta_fields (Papa_parse joinedHeaderCSV)
     = Some [''firstname,lastname'', ''username'', ''uid'', ''password'', ''email'', ''membershipplanid'']
   \<and> meta_fields (Papa_parse joinedHeaderCSV) \<noteq> Some expectedHeaders
   \<and> length (data (Papa_parse joinedHeaderCSV)) = 1
   \<and> errors (handleFileUpload sampleEmailRegex sampleNet [] (Some joinedHeaderCSV) initialState)
       = [''Row 1 - firstname: Required'', ''Row 1 - lastname: Required'']"
proof -
  let ?row = "rowObject [''firstname,lastname'', ''username'', ''uid'', ''password'', ''email'', ''membershipplanid'']
                        [''Ada,Lovelace'', ''ada'', ''42'', ''secret'', ''ada@example.org'', ''3'']"
  have flds: "?row ''firstname'' = None" "?row ''lastname'' = None" "?row ''username'' = Some ''ada''"
    "?row ''uid'' = Some ''42''" "?row ''password'' = Some ''secret''"
    "?row ''email'' = Some ''ada@example.org''" "?row ''membershipplanid'' = Some ''3''"
    by (simp_all add: rowObject_def)
  have bad: "safeParse sampleEmailRegex ?row =
     SafeParseError [\<lparr>code = invalid_type, path = [''firstname''], message = ''Required''\<rparr>,
                     \<lparr>code = invalid_type, path = [''lastname''], message = ''Required''\<rparr>]"
    by (simp add: safeParse_def csvSchema_parse_def csvSchema_issues_def Let_def field_cases parsedValue_def
        isOK_def Number_of_def flds sample_numbers sampleEmailRegex_def)
  have pr: "processRows sampleEmailRegex [?row]
              = ([], [''Row 1 - firstname: Required'', ''Row 1 - lastname: Required''])"
    by (simp add: processRows_def bad rowError_def natToString_digits)
  have ok: "\<not> headerMismatch (Papa_parse joinedHeaderCSV)"
    by (simp add: Papa_parse_joinedHeaderCSV headerMismatch_def expectedHeaders_def)
  have "complete_callback sampleEmailRegex sampleNet [] (Papa_parse joinedHeaderCSV) initialState =
           initialState\<lparr>errors := [''Row 1 - firstname: Required'', ''Row 1 - lastname: Required''],
              requests := requests initialState @ map apiUrl [],
              validatedData := spec_annotatedRows sampleNet (length (requests initialState)) [],
              loading := False\<rparr>"
    by (rule complete_fulfilled [OF ok]) (simp_all add: Papa_parse_joinedHeaderCSV pr)
  then show ?thesis
    by (simp add: Papa_parse_joinedHeaderCSV handleFileUpload_def expectedHeaders_def)
qed


end
